(* ===== verification/Prelude.thy ===== *)
theory Prelude
  imports Main
begin

text \<open>
  Shared vocabulary of the development of the movie catalogue API
  (\<^verbatim>\<open>src/movies\<close>): Python strings as lists of code points, the JSON values that
  travel between client and server, association lists read the way a Python
  \<^verbatim>\<open>dict\<close> reads them, and the generic lemmas on these that the component theories
  share. The collection \<open>db_simps\<close> gathers the characteristic equations of the
  writes and of the review views on the database, \<open>wf_intros\<close> the lemmas that the
  storage invariant is preserved, \<open>asc_intros\<close> those that the tables stay in key
  order; the request-level proofs use them as a whole.
\<close>

named_theorems db_simps "characteristic equations of the writes and the review views"
named_theorems wf_intros "preservation of the storage invariant"
named_theorems asc_intros "preservation of the key order of the tables"

section \<open>Python strings\<close>

text \<open>
  A Python \<^verbatim>\<open>str\<close> is a sequence of Unicode code points and \<^verbatim>\<open>len\<close> counts code
  points, so a string is a \<open>nat list\<close>. \<open>py_str\<close> reads an ASCII literal as such a
  list; it is how the field names and the test inputs are written.
\<close>

type_synonym pystr = "nat list"

definition py_str :: "string \<Rightarrow> pystr" where
  "py_str s = map of_char s"

lemma py_str_simps:
  "py_str [] = []"
  "py_str (c # cs) = of_char c # py_str cs"
  by (simp_all add: py_str_def)

lemma py_str_inject [simp]: "py_str s = py_str t \<longleftrightarrow> s = t"
proof -
  have "inj (of_char :: char \<Rightarrow> nat)"
    by (rule injI) simp
  then show ?thesis
    by (simp add: py_str_def)
qed

lemma length_py_str [simp]: "length (py_str s) = length s"
  by (simp add: py_str_def)

text \<open>\<^verbatim>\<open>str.isspace\<close> of CPython: the code points whose bidirectional class is
  WS, B or S, or whose category is Zs.\<close>

definition py_isspace :: "nat \<Rightarrow> bool" where
  "py_isspace c \<longleftrightarrow>
     (9 \<le> c \<and> c \<le> 13) \<or> (28 \<le> c \<and> c \<le> 32) \<or> c = 133 \<or> c = 160 \<or> c = 5760 \<or>
     (8192 \<le> c \<and> c \<le> 8202) \<or> c = 8232 \<or> c = 8233 \<or> c = 8239 \<or> c = 8287 \<or> c = 12288"

section \<open>JSON values\<close>

text \<open>
  The wire representation: the request body as the JSON parser hands it to the
  view (\<^verbatim>\<open>request.data\<close>) and the response body the serializers build
  (\<^verbatim>\<open>serializer.data\<close>, an ordered dict). Objects keep their keys in order and may
  repeat a key, as the JSON text does.
\<close>

datatype json =
    JNull
  | JBool bool
  | JInt int
  | JStr pystr
  | JList "json list"
  | JObj "(pystr \<times> json) list"

text \<open>Python's \<^verbatim>\<open>json.loads\<close> keeps the last of repeated keys.\<close>

fun dict_get :: "(pystr \<times> json) list \<Rightarrow> pystr \<Rightarrow> json option" where
  "dict_get [] k = None"
| "dict_get ((k', v) # kvs) k =
     (case dict_get kvs k of Some w \<Rightarrow> Some w | None \<Rightarrow> if k' = k then Some v else None)"

lemma dict_get_map_of_rev: "dict_get kvs k = map_of (rev kvs) k"
  by (induction kvs) (auto simp: map_of_append map_add_def split: option.splits)

lemma dict_get_distinct:
  "distinct (map fst kvs) \<Longrightarrow> dict_get kvs k = map_of kvs k"
proof (induction kvs)
  case Nil
  then show ?case by simp
next
  case (Cons kv kvs)
  obtain a b where kv: "kv = (a, b)" by fastforce
  show ?case
  proof (cases "a = k")
    case True
    with Cons kv have "map_of kvs k = None" by (simp add: map_of_eq_None_iff)
    with Cons kv True show ?thesis by simp
  next
    case False
    with Cons kv show ?thesis by (simp split: option.splits)
  qed
qed

section \<open>Tables as association lists\<close>

text \<open>
  A table is the list of its rows in storage order, each with its primary key. The
  keys of a table and the lookup by key are the only views the components need.
\<close>

type_synonym 'r table = "(nat \<times> 'r) list"

abbreviation keys :: "'r table \<Rightarrow> nat set" where
  "keys t \<equiv> fst ` set t"

lemma map_of_filter_key:
  "map_of (filter (\<lambda>(k, r). P k r) t) k =
     (case map_of t k of Some r \<Rightarrow> if P k r then Some r else None | None \<Rightarrow> None)"
  if "distinct (map fst t)"
  using that by (induction t) (auto split: option.splits simp: map_of_eq_None_iff)

lemma key_in_keys [intro]: "(k, v) \<in> set t \<Longrightarrow> k \<in> keys t"
  by force

lemma map_of_None_if_notin [simp]: "k \<notin> keys t \<Longrightarrow> map_of t k = None"
  by (simp add: map_of_eq_None_iff)

lemma keys_map_of_Some: "k \<in> keys t \<Longrightarrow> \<exists>v. map_of t k = Some v"
  by (auto intro: weak_map_of_SomeI)

lemma map_of_Some_keys: "map_of t k = Some v \<Longrightarrow> k \<in> keys t"
  by (auto dest: map_of_SomeD)

lemma None_eq_map_of_iff [simp]: "None = map_of t k \<longleftrightarrow> k \<notin> keys t"
  by (auto simp: map_of_eq_None_iff[symmetric])

text \<open>With unique keys, a key is selected by a filter on the rows exactly when its
  row is.\<close>

lemma key_in_filter_iff:
  assumes "distinct (map fst t)" and "(k, x) \<in> set t"
  shows "k \<in> set (map fst (filter (\<lambda>(k, y). P y) t)) \<longleftrightarrow> P x"
proof
  assume "k \<in> set (map fst (filter (\<lambda>(k, y). P y) t))"
  then obtain y where "(k, y) \<in> set t" "P y" by auto
  with assms show "P x" by (metis eq_key_imp_eq_value)
next
  assume "P x"
  with assms(2) show "k \<in> set (map fst (filter (\<lambda>(k, y). P y) t))" by force
qed

lemma keys_filter_subset: "keys (filter P t) \<subseteq> keys t"
  by auto

lemma distinct_map_fst_filter:
  "distinct (map fst t) \<Longrightarrow> distinct (map fst (filter P t))"
  by (simp add: distinct_map_filter)

end
