(* ===== verification/Models.thy ===== *)
theory Models
  imports Prelude
begin

text \<open>
  The storage layer: the three Django models of \<^verbatim>\<open>src/movies/models.py\<close> as records,
  the database as a record of three tables with their AUTOINCREMENT counters, and the
  ORM operations the views and the cascading foreign keys perform on it. Each table
  is an association list in storage order; the counter \<open>*_seq\<close> is the largest key
  ever handed out (SQLite's \<^verbatim>\<open>sqlite_sequence\<close>), so a new row gets its successor
  and keys are never reused. The invariant \<open>wf_db\<close> is referential integrity plus
  key discipline; every operation keeps it. The review table refines the abstract
  store \<open>store_op\<close> through \<open>review_map\<close>, and the cascades remove exactly the rows
  that point into what is deleted. Every write keeps the tables in key
  order (\<open>db_ascending\<close>), and writes confined to different rows (\<open>row_write\<close>)
  commute.
\<close>

section \<open>Rows\<close>

record genre =
  name :: pystr

record movie =
  title :: pystr
  audience :: int
  poster_url :: pystr
  description :: pystr
  genre_id :: nat

record review =
  content :: pystr
  score :: int
  movie_id :: nat

section \<open>The database\<close>

record db =
  genre_tbl :: "genre table"
  movie_tbl :: "movie table"
  review_tbl :: "review table"
  genre_seq :: nat
  movie_seq :: nat
  review_seq :: nat

definition empty_db :: db where
  "empty_db = \<lparr>genre_tbl = [], movie_tbl = [], review_tbl = [],
               genre_seq = 0, movie_seq = 0, review_seq = 0\<rparr>"

text \<open>The exceptions the ORM raises: \<^verbatim>\<open>Model.DoesNotExist\<close> from \<^verbatim>\<open>get\<close> and the
  database's \<^verbatim>\<open>IntegrityError\<close> on a foreign key with no parent row.\<close>

datatype db_error = DoesNotExist | IntegrityError

section \<open>Reads\<close>

text \<open>\<^verbatim>\<open>Model.objects.get(id=i)\<close>: the row with primary key \<open>i\<close>, or
  \<^verbatim>\<open>DoesNotExist\<close>.\<close>

definition objects_get :: "'r table \<Rightarrow> nat \<Rightarrow> db_error + 'r" where
  "objects_get t i = (case map_of t i of None \<Rightarrow> Inl DoesNotExist | Some r \<Rightarrow> Inr r)"

text \<open>\<^verbatim>\<open>genre.movie_set.all()\<close>, the reverse side of \<^verbatim>\<open>Movie.genre\<close>: the movies
  whose \<open>genre_id\<close> is the genre's key, in storage order.\<close>

definition movie_set :: "db \<Rightarrow> nat \<Rightarrow> movie table" where
  "movie_set d g = filter (\<lambda>(k, m). genre_id m = g) (movie_tbl d)"

section \<open>Writes\<close>

text \<open>\<^verbatim>\<open>Model.objects.create(...)\<close>: an INSERT under the next key. The foreign key
  is checked by the database: a missing parent raises \<^verbatim>\<open>IntegrityError\<close> and
  nothing is stored.\<close>

definition genre_create :: "db \<Rightarrow> genre \<Rightarrow> nat \<times> db" where
  "genre_create d g =
     (let i = Suc (genre_seq d)
      in (i, d\<lparr>genre_tbl := genre_tbl d @ [(i, g)], genre_seq := i\<rparr>))"

definition movie_create :: "db \<Rightarrow> movie \<Rightarrow> db_error + nat \<times> db" where
  "movie_create d m =
     (if genre_id m \<notin> keys (genre_tbl d) then Inl IntegrityError
      else let i = Suc (movie_seq d)
           in Inr (i, d\<lparr>movie_tbl := movie_tbl d @ [(i, m)], movie_seq := i\<rparr>))"

definition review_create_row :: "db \<Rightarrow> review \<Rightarrow> db_error + nat \<times> db" where
  "review_create_row d r =
     (if movie_id r \<notin> keys (movie_tbl d) then Inl IntegrityError
      else let i = Suc (review_seq d)
           in Inr (i, d\<lparr>review_tbl := review_tbl d @ [(i, r)], review_seq := i\<rparr>))"

text \<open>\<^verbatim>\<open>instance.save()\<close> on a row that has a key: an UPDATE of that row in place;
  when no row has the key, Django falls back to an INSERT under it, which the foreign
  key check guards and which advances the counter past the key.\<close>

definition review_save :: "db \<Rightarrow> nat \<Rightarrow> review \<Rightarrow> db_error + db" where
  "review_save d i r =
     (if i \<in> keys (review_tbl d)
      then Inr (d\<lparr>review_tbl := map (\<lambda>(k, x). if k = i then (k, r) else (k, x)) (review_tbl d)\<rparr>)
      else if movie_id r \<notin> keys (movie_tbl d) then Inl IntegrityError
      else Inr (d\<lparr>review_tbl := review_tbl d @ [(i, r)], review_seq := max (review_seq d) i\<rparr>))"

text \<open>\<^verbatim>\<open>instance.delete()\<close>: Django's collector deletes the row and, following
  \<^verbatim>\<open>on_delete=models.CASCADE\<close>, every row whose foreign key points at a deleted
  row. A review has no dependants; a movie takes its reviews with it; a genre its
  movies and their reviews.\<close>

definition review_delete :: "db \<Rightarrow> nat \<Rightarrow> db" where
  "review_delete d i = d\<lparr>review_tbl := filter (\<lambda>(k, r). k \<noteq> i) (review_tbl d)\<rparr>"

definition movie_delete :: "db \<Rightarrow> nat \<Rightarrow> db" where
  "movie_delete d i =
     d\<lparr>review_tbl := filter (\<lambda>(k, r). movie_id r \<noteq> i) (review_tbl d),
       movie_tbl := filter (\<lambda>(k, m). k \<noteq> i) (movie_tbl d)\<rparr>"

definition genre_delete :: "db \<Rightarrow> nat \<Rightarrow> db" where
  "genre_delete d i =
     (let gone = map fst (movie_set d i)
      in d\<lparr>review_tbl := filter (\<lambda>(k, r). movie_id r \<notin> set gone) (review_tbl d),
           movie_tbl := filter (\<lambda>(k, m). genre_id m \<noteq> i) (movie_tbl d),
           genre_tbl := filter (\<lambda>(k, g). k \<noteq> i) (genre_tbl d)\<rparr>)"

section \<open>The storage invariant\<close>

text \<open>Keys are unique and never above the counter; every movie's genre and every
  review's movie exist (the foreign keys of \<^verbatim>\<open>models.py\<close> lines 13 and 19).\<close>

definition wf_table :: "nat \<Rightarrow> 'r table \<Rightarrow> bool" where
  "wf_table seq t \<longleftrightarrow> distinct (map fst t) \<and> list_all (\<lambda>k. k \<le> seq) (map fst t)"

definition wf_db :: "db \<Rightarrow> bool" where
  "wf_db d \<longleftrightarrow>
     wf_table (genre_seq d) (genre_tbl d) \<and>
     wf_table (movie_seq d) (movie_tbl d) \<and>
     wf_table (review_seq d) (review_tbl d) \<and>
     list_all (\<lambda>(k, m). genre_id m \<in> keys (genre_tbl d)) (movie_tbl d) \<and>
     list_all (\<lambda>(k, r). movie_id r \<in> keys (movie_tbl d)) (review_tbl d)"

section \<open>The review table as a map\<close>

text \<open>The abstraction of the review table: the partial map from key to review that
  the ORM presents.\<close>

definition review_map :: "db \<Rightarrow> nat \<rightharpoonup> review" where
  "review_map d = map_of (review_tbl d)"

text \<open>The operations a store of reviews offers, on the abstract map: nothing
  changes, a review is added under a key that was free, the review under an existing
  key is replaced, or the review under an existing key is removed.\<close>

inductive store_op :: "(nat \<rightharpoonup> review) \<Rightarrow> (nat \<rightharpoonup> review) \<Rightarrow> bool" where
  keep: "store_op m m"
| insert: "k \<notin> dom m \<Longrightarrow> store_op m (m(k \<mapsto> r))"
| update: "i \<in> dom m \<Longrightarrow> store_op m (m(i \<mapsto> r))"
| remove: "i \<in> dom m \<Longrightarrow> store_op m (m(i := None))"

section \<open>Tables: lookup after each kind of write\<close>

text \<open>The three shapes of write on a table (append under a fresh key, overwrite by
  key, filter) and what a lookup by key sees afterwards. They carry the functional
  lemmas of the operations and their refinement of map operations.\<close>

definition tbl_upd :: "nat \<Rightarrow> 'r \<Rightarrow> 'r table \<Rightarrow> 'r table" where
  "tbl_upd i r t = map (\<lambda>(k, x). if k = i then (k, r) else (k, x)) t"

text \<open>A write confined to the row with key \<open>i\<close>: none, the delete of that row, or
  an overwrite of it. Writes to two different rows commute, and a write to one row
  leaves every lookup of another key as it was.\<close>

definition row_write :: "nat \<Rightarrow> ('r table \<Rightarrow> 'r table) \<Rightarrow> bool" where
  "row_write i E \<longleftrightarrow> E = id \<or> E = filter (\<lambda>(k, x). k \<noteq> i) \<or> (\<exists>x. E = tbl_upd i x)"

text \<open>Key order: the keys of a table are strictly increasing in storage order. The list
  views return \<^verbatim>\<open>objects.all()\<close> in storage order; in every reachable database this is
  the order of the primary keys.\<close>

definition ascending :: "'r table \<Rightarrow> bool" where
  "ascending t \<longleftrightarrow> sorted_wrt (<) (map fst t)"

definition db_ascending :: "db \<Rightarrow> bool" where
  "db_ascending d \<longleftrightarrow>
     ascending (genre_tbl d) \<and> ascending (movie_tbl d) \<and> ascending (review_tbl d)"

lemma review_save_tbl_upd [db_simps]:
  "i \<in> keys (review_tbl d) \<Longrightarrow> review_save d i r = Inr (d\<lparr>review_tbl := tbl_upd i r (review_tbl d)\<rparr>)"
  by (simp add: review_save_def tbl_upd_def)

lemma in_set_tbl_upd: "(k, x) \<in> set (tbl_upd i r t) \<Longrightarrow> x = r \<or> (k, x) \<in> set t"
  by (auto simp: tbl_upd_def split: if_splits)

lemma keys_tbl_upd [simp]: "keys (tbl_upd i r t) = keys t"
  by (force simp: tbl_upd_def)

lemma map_fst_tbl_upd [simp]: "map fst (tbl_upd i r t) = map fst t"
  by (induction t) (auto simp: tbl_upd_def)

lemma map_of_tbl_upd [simp]:
  "map_of (tbl_upd i r t) j = (if j = i \<and> i \<in> keys t then Some r else map_of t j)"
proof (induction t)
  case Nil
  then show ?case by (simp add: tbl_upd_def)
next
  case (Cons kx t)
  then show ?case by (cases kx) (auto simp: tbl_upd_def)
qed

lemma map_of_append_fresh [simp]:
  "i \<notin> keys t \<Longrightarrow> map_of (t @ [(i, r)]) j = (if j = i then Some r else map_of t j)"
  by (auto simp: map_of_append map_add_def map_of_eq_None_iff split: option.splits)

lemma map_of_filter_ne [simp]:
  "map_of (filter (\<lambda>(k, r). k \<noteq> i) t) j = (if j = i then None else map_of t j)"
  by (induction t) auto

section \<open>Writes to different rows\<close>

lemma tbl_upd_filter_comm:
  "i \<noteq> j \<Longrightarrow>
   tbl_upd i r (filter (\<lambda>(k, x). k \<noteq> j) t) = filter (\<lambda>(k, x). k \<noteq> j) (tbl_upd i r t)"
  by (induction t) (auto simp: tbl_upd_def split: if_splits)

lemma tbl_upd_comm:
  "i \<noteq> j \<Longrightarrow> tbl_upd i r (tbl_upd j r' t) = tbl_upd j r' (tbl_upd i r t)"
  by (induction t) (auto simp: tbl_upd_def)

lemma filter_ne_comm:
  "filter (\<lambda>(k, x). k \<noteq> i) (filter (\<lambda>(k, x). k \<noteq> j) t) =
   filter (\<lambda>(k, x). k \<noteq> j) (filter (\<lambda>(k, x). k \<noteq> i) t)"
  by (induction t) auto

lemma row_writes_commute:
  assumes "i \<noteq> j" and "row_write i E" and "row_write j F"
  shows "E (F t) = F (E t)"
  using assms tbl_upd_filter_comm[of i j] tbl_upd_filter_comm[of j i] tbl_upd_comm[of i j]
    filter_ne_comm[of i j] tbl_upd_filter_comm[of i j, symmetric] tbl_upd_filter_comm[of j i, symmetric]
  by (auto simp: row_write_def)

lemma row_write_other_key:
  assumes "i \<noteq> j" and "row_write j F"
  shows "map_of (F t) i = map_of t i"
  using assms by (auto simp: row_write_def)

section \<open>The invariant is kept\<close>

lemma wf_table_fresh:
  "wf_table s t \<Longrightarrow> Suc s \<notin> keys t"
  by (auto simp: wf_table_def list_all_iff)

lemma wf_table_append [wf_intros]:
  "wf_table s t \<Longrightarrow> i \<notin> keys t \<Longrightarrow> s \<le> s' \<Longrightarrow> i \<le> s' \<Longrightarrow> wf_table s' (t @ [(i, r)])"
  by (auto simp: wf_table_def list_all_iff)

lemma wf_table_filter [wf_intros]:
  "wf_table s t \<Longrightarrow> wf_table s (filter P t)"
  by (auto simp: wf_table_def list_all_iff distinct_map_filter)

lemma wf_table_tbl_upd [wf_intros]:
  "wf_table s t \<Longrightarrow> wf_table s (tbl_upd i r t)"
  by (simp add: wf_table_def)

lemma ascending_append [asc_intros]:
  "list_all (\<lambda>k. k \<le> s) (map fst t) \<Longrightarrow> ascending t \<Longrightarrow> ascending (t @ [(Suc s, r)])"
  by (auto simp: ascending_def sorted_wrt_append list_all_iff)

lemma ascending_filter [asc_intros]: "ascending t \<Longrightarrow> ascending (filter P t)"
  by (induction t) (auto simp: ascending_def)

lemma ascending_tbl_upd [asc_intros]: "ascending t \<Longrightarrow> ascending (tbl_upd i r t)"
  by (simp add: ascending_def)

lemma ascending_row_write [asc_intros]: "row_write i E \<Longrightarrow> ascending t \<Longrightarrow> ascending (E t)"
  by (auto simp: row_write_def intro: asc_intros)

lemma wf_dbD:
  assumes "wf_db d"
  shows "wf_table (genre_seq d) (genre_tbl d)" "wf_table (movie_seq d) (movie_tbl d)"
    "wf_table (review_seq d) (review_tbl d)"
    "(k, m) \<in> set (movie_tbl d) \<Longrightarrow> genre_id m \<in> keys (genre_tbl d)"
    "(k, r) \<in> set (review_tbl d) \<Longrightarrow> movie_id r \<in> keys (movie_tbl d)"
  using assms by (auto simp: wf_db_def list_all_iff)

lemma wf_empty_db: "wf_db empty_db"
  by (simp add: wf_db_def wf_table_def empty_db_def)

lemma wf_genre_create [wf_intros]:
  "wf_db d \<Longrightarrow> genre_create d g = (i, d') \<Longrightarrow> wf_db d'"
  by (auto simp: genre_create_def wf_db_def list_all_iff Let_def
      intro!: wf_table_append wf_table_fresh)

lemma wf_movie_create [wf_intros]:
  "wf_db d \<Longrightarrow> movie_create d m = Inr (i, d') \<Longrightarrow> wf_db d'"
  by (auto simp: movie_create_def wf_db_def list_all_iff Let_def split: if_splits
      intro!: wf_table_append wf_table_fresh)

lemma wf_review_create_row [wf_intros]:
  "wf_db d \<Longrightarrow> review_create_row d r = Inr (i, d') \<Longrightarrow> wf_db d'"
  by (auto simp: review_create_row_def wf_db_def list_all_iff Let_def split: if_splits
      intro!: wf_table_append wf_table_fresh)

lemma wf_review_save [wf_intros]:
  assumes "wf_db d" and "movie_id r \<in> keys (movie_tbl d)" and "review_save d i r = Inr d'"
  shows "wf_db d'"
proof (cases "i \<in> keys (review_tbl d)")
  case True
  then have "d' = d\<lparr>review_tbl := tbl_upd i r (review_tbl d)\<rparr>"
    using assms(3) by (simp add: review_save_tbl_upd)
  moreover note in_set_tbl_upd
  ultimately show ?thesis
    using assms(1,2) by (fastforce simp: wf_db_def list_all_iff intro: wf_table_tbl_upd)
next
  case False
  with assms show ?thesis
    by (auto simp: review_save_def wf_db_def list_all_iff split: if_splits
        intro!: wf_table_append)
qed

lemma wf_review_delete [wf_intros]:
  "wf_db d \<Longrightarrow> wf_db (review_delete d i)"
  by (auto simp: review_delete_def wf_db_def list_all_iff intro: wf_table_filter)

lemma wf_movie_delete [wf_intros]:
  "wf_db d \<Longrightarrow> wf_db (movie_delete d i)"
  by (fastforce simp: movie_delete_def wf_db_def list_all_iff intro: wf_table_filter)

lemma wf_genre_delete [wf_intros]:
  assumes "wf_db d"
  shows "wf_db (genre_delete d i)"
proof -
  let ?gone = "map fst (movie_set d i)"
  have rev: "movie_id r \<in> keys (filter (\<lambda>(k, m). genre_id m \<noteq> i) (movie_tbl d))"
    if "(k, r) \<in> set (review_tbl d)" and "movie_id r \<notin> set ?gone" for k r
  proof -
    from assms that(1) obtain m where m: "(movie_id r, m) \<in> set (movie_tbl d)"
      by (auto dest: wf_dbD(5))
    with that(2) have "genre_id m \<noteq> i"
      by (force simp: movie_set_def)
    with m show ?thesis by force
  qed
  have mov: "genre_id m \<in> keys (filter (\<lambda>(k, g). k \<noteq> i) (genre_tbl d))"
    if "(k, m) \<in> set (movie_tbl d)" and "genre_id m \<noteq> i" for k m
    using wf_dbD(4)[OF assms that(1)] that(2) by force
  show ?thesis
    using assms rev mov
    by (auto simp: genre_delete_def wf_db_def list_all_iff Let_def intro: wf_table_filter)
qed

text \<open>The writes keep the tables in key order: an insert takes the key after the
  counter, which is above every stored key, and the deletes only drop rows.\<close>

lemma asc_genre_create [asc_intros]:
  "wf_db d \<Longrightarrow> db_ascending d \<Longrightarrow> genre_create d g = (i, d') \<Longrightarrow> db_ascending d'"
  by (auto simp: genre_create_def db_ascending_def wf_db_def wf_table_def Let_def
      intro: ascending_append)

lemma asc_movie_create [asc_intros]:
  "wf_db d \<Longrightarrow> db_ascending d \<Longrightarrow> movie_create d m = Inr (i, d') \<Longrightarrow> db_ascending d'"
  by (auto simp: movie_create_def db_ascending_def wf_db_def wf_table_def Let_def split: if_splits
      intro: ascending_append)

lemma asc_review_create_row [asc_intros]:
  "wf_db d \<Longrightarrow> db_ascending d \<Longrightarrow> review_create_row d r = Inr (i, d') \<Longrightarrow> db_ascending d'"
  by (auto simp: review_create_row_def db_ascending_def wf_db_def wf_table_def Let_def
      split: if_splits intro: ascending_append)

lemma asc_review_delete [asc_intros]: "db_ascending d \<Longrightarrow> db_ascending (review_delete d i)"
  by (simp add: review_delete_def db_ascending_def ascending_filter)

lemma asc_movie_delete [asc_intros]: "db_ascending d \<Longrightarrow> db_ascending (movie_delete d i)"
  by (simp add: movie_delete_def db_ascending_def ascending_filter)

lemma asc_genre_delete [asc_intros]: "db_ascending d \<Longrightarrow> db_ascending (genre_delete d i)"
  by (simp add: genre_delete_def db_ascending_def ascending_filter Let_def)

section \<open>Cascading deletes and the map abstraction\<close>

lemma wf_db_distinct:
  assumes "wf_db d"
  shows "distinct (map fst (genre_tbl d))" "distinct (map fst (movie_tbl d))"
    "distinct (map fst (review_tbl d))"
  using wf_dbD(1-3)[OF assms] by (simp_all add: wf_table_def)

lemma movie_set_key_iff:
  assumes "wf_db d" and "(k, m) \<in> set (movie_tbl d)"
  shows "k \<in> set (map fst (movie_set d g)) \<longleftrightarrow> genre_id m = g"
  using key_in_filter_iff[OF wf_db_distinct(2)[OF assms(1)] assms(2)] by (simp add: movie_set_def)

text \<open>C14: deleting a genre removes exactly that genre, exactly the movies of that
  genre and exactly the reviews whose movie went with them; the result is
  well-formed, so no movie or review is left orphaned.\<close>

theorem genre_delete_cascade:
  assumes wf: "wf_db d"
  shows "keys (genre_tbl (genre_delete d g)) = keys (genre_tbl d) - {g} \<and>
    set (movie_tbl (genre_delete d g)) = {x \<in> set (movie_tbl d). genre_id (snd x) \<noteq> g} \<and>
    set (review_tbl (genre_delete d g)) =
      {x \<in> set (review_tbl d). movie_id (snd x) \<in> keys (movie_tbl (genre_delete d g))} \<and>
    wf_db (genre_delete d g)"
proof -
  let ?gone = "set (map fst (movie_set d g))"
  let ?ms = "filter (\<lambda>(k, m). genre_id m \<noteq> g) (movie_tbl d)"
  have dist: "distinct (map fst (movie_tbl d))"
    using wf_dbD(2)[OF wf] by (simp add: wf_table_def)
  have gone: "k \<in> ?gone \<longleftrightarrow> k \<notin> keys ?ms" if "k \<in> keys (movie_tbl d)" for k
  proof
    assume "k \<in> ?gone"
    then obtain m where m: "(k, m) \<in> set (movie_tbl d)" "genre_id m = g"
      by (auto simp: movie_set_def)
    show "k \<notin> keys ?ms"
    proof
      assume "k \<in> keys ?ms"
      then obtain m' where "(k, m') \<in> set (movie_tbl d)" "genre_id m' \<noteq> g" by auto
      with m dist show False by (metis eq_key_imp_eq_value)
    qed
  next
    assume "k \<notin> keys ?ms"
    with that show "k \<in> ?gone" by (force simp: movie_set_def)
  qed
  have rv: "movie_id (snd x) \<in> keys (movie_tbl d)" if "x \<in> set (review_tbl d)" for x
    using that wf_dbD(5)[OF wf, of "fst x" "snd x"] by simp
  have "x \<in> set (review_tbl (genre_delete d g)) \<longleftrightarrow>
      x \<in> set (review_tbl d) \<and> movie_id (snd x) \<in> keys ?ms" for x
  proof -
    have "x \<in> set (review_tbl (genre_delete d g)) \<longleftrightarrow>
        x \<in> set (review_tbl d) \<and> movie_id (snd x) \<notin> ?gone"
      by (cases x) (simp add: genre_delete_def Let_def)
    also have "\<dots> \<longleftrightarrow> x \<in> set (review_tbl d) \<and> movie_id (snd x) \<in> keys ?ms"
      using gone rv by blast
    finally show ?thesis .
  qed
  then have "set (review_tbl (genre_delete d g)) = {x \<in> set (review_tbl d). movie_id (snd x) \<in> keys ?ms}"
    by blast
  then show ?thesis
    using wf_genre_delete[OF wf] by (auto simp: genre_delete_def Let_def)
qed

text \<open>C15: deleting a movie removes exactly that movie and exactly its reviews,
  leaves the genres, and keeps the database well-formed.\<close>

theorem movie_delete_cascade:
  assumes wf: "wf_db d"
  shows "keys (movie_tbl (movie_delete d mv)) = keys (movie_tbl d) - {mv} \<and>
    set (review_tbl (movie_delete d mv)) = {x \<in> set (review_tbl d). movie_id (snd x) \<noteq> mv} \<and>
    genre_tbl (movie_delete d mv) = genre_tbl d \<and>
    wf_db (movie_delete d mv)"
  using wf_movie_delete[OF wf] by (auto simp: movie_delete_def)

text \<open>Each review write seen through \<open>review_map\<close>.\<close>

lemma review_map_create_row:
  assumes wf: "wf_db d" and c: "review_create_row d r = Inr (k, d1)"
  shows "k \<notin> dom (review_map d) \<and> review_map d1 = (review_map d)(k \<mapsto> r)"
proof -
  from c have k: "k = Suc (review_seq d)" and d1: "review_tbl d1 = review_tbl d @ [(k, r)]"
    by (auto simp: review_create_row_def Let_def split: if_splits)
  have fresh: "k \<notin> keys (review_tbl d)"
    using k wf_table_fresh wf_dbD(3)[OF wf] by simp
  then show ?thesis
    using d1 by (auto simp: review_map_def dom_map_of_conv_image_fst fun_eq_iff map_add_def
        split: option.splits)
qed

lemma review_map_save:
  assumes "i \<in> dom (review_map d)" and "review_save d i r = Inr d2"
  shows "review_map d2 = (review_map d)(i \<mapsto> r)"
proof -
  have "i \<in> keys (review_tbl d)"
    using assms(1) by (simp add: review_map_def dom_map_of_conv_image_fst)
  with assms(2) show ?thesis
    by (auto simp: review_map_def review_save_tbl_upd fun_eq_iff)
qed

lemma review_map_delete: "review_map (review_delete d j) = (review_map d)(j := None)"
  by (simp add: review_map_def review_delete_def fun_eq_iff)

lemma review_map_keeps:
  "review_tbl d' = review_tbl d \<Longrightarrow> review_map d' = review_map d"
  by (simp add: review_map_def)

text \<open>C16: on a well-formed database the review writes refine operations on the
  abstract map \<open>review_map\<close>: a create adds a key that was free, a save overwrites
  the value of an existing key, a delete removes the key.\<close>

theorem review_table_refines_map:
  assumes wf: "wf_db d"
  shows "(review_create_row d r = Inr (k, d1) \<longrightarrow>
            k \<notin> dom (review_map d) \<and> review_map d1 = (review_map d)(k \<mapsto> r)) \<and>
         (i \<in> dom (review_map d) \<longrightarrow> review_save d i r' = Inr d2 \<longrightarrow>
            review_map d2 = (review_map d)(i \<mapsto> r')) \<and>
         review_map (review_delete d j) = (review_map d)(j := None)"
  using review_map_create_row[OF wf] review_map_save review_map_delete by blast

end
