(* ===== verification/Drf_Fields.thy ===== *)
theory Drf_Fields
  imports Prelude
begin

text \<open>
  The two serializer fields \<^verbatim>\<open>ReviewSerializer\<close> is built from
  (\<^verbatim>\<open>src/movies/serializers.py\<close> lines 22--25 over the model fields of
  \<^verbatim>\<open>src/movies/models.py\<close> lines 17--18): Django REST framework's \<^verbatim>\<open>CharField\<close>
  with \<^verbatim>\<open>max_length=100\<close> and its \<^verbatim>\<open>IntegerField\<close>, each turning one JSON value of
  the request into a Python value or a list of error codes. The Python built-ins they
  call, \<^verbatim>\<open>str.strip\<close>, \<^verbatim>\<open>str(int)\<close> and \<^verbatim>\<open>int(str)\<close>, are modelled on code points.
\<close>

section \<open>Python string built-ins\<close>

definition py_strip :: "pystr \<Rightarrow> pystr" where
  "py_strip s = rev (dropWhile py_isspace (rev (dropWhile py_isspace s)))"

definition is_digit :: "nat \<Rightarrow> bool" where
  "is_digit c \<longleftrightarrow> 48 \<le> c \<and> c \<le> 57"

text \<open>\<^verbatim>\<open>str(n)\<close> of a non-negative integer: its decimal digits.\<close>

fun nat_digits :: "nat \<Rightarrow> pystr" where
  "nat_digits n = (if n < 10 then [48 + n] else nat_digits (n div 10) @ [48 + n mod 10])"

declare nat_digits.simps [simp del]

lemma nat_digits_small [simp]: "n < 10 \<Longrightarrow> nat_digits n = [48 + n]"
  by (simp add: nat_digits.simps)

lemma nat_digits_big [simp]: "\<not> n < 10 \<Longrightarrow> nat_digits n = nat_digits (n div 10) @ [48 + n mod 10]"
  by (subst nat_digits.simps) simp

definition py_str_of_int :: "int \<Rightarrow> pystr" where
  "py_str_of_int i = (if i < 0 then 45 # nat_digits (nat (- i)) else nat_digits (nat i))"

text \<open>The digit part \<open>[0-9](_?[0-9])*\<close> that \<^verbatim>\<open>int(str)\<close> accepts in base 10, and
  its value.\<close>

fun digits_ok :: "pystr \<Rightarrow> bool" where
  "digits_ok [] = False"
| "digits_ok [c] = is_digit c"
| "digits_ok (c # d # cs) = (is_digit c \<and> (if d = 95 then digits_ok cs else digits_ok (d # cs)))"

definition digits_val :: "pystr \<Rightarrow> nat" where
  "digits_val ds = foldl (\<lambda>acc c. 10 * acc + (c - 48)) 0 (filter is_digit ds)"

text \<open>\<^verbatim>\<open>int(s)\<close> for a string: surrounding whitespace is ignored, one optional sign,
  then the digits; anything else raises \<^verbatim>\<open>ValueError\<close>, here \<open>None\<close>.\<close>

definition py_int :: "pystr \<Rightarrow> int option" where
  "py_int s =
     (case py_strip s of
        [] \<Rightarrow> None
      | c # ds \<Rightarrow>
          if c = 43 then (if digits_ok ds then Some (int (digits_val ds)) else None)
          else if c = 45 then (if digits_ok ds then Some (- int (digits_val ds)) else None)
          else if digits_ok (c # ds) then Some (int (digits_val (c # ds))) else None)"

text \<open>\<^verbatim>\<open>IntegerField.re_decimal.sub('', s)\<close> with \<^verbatim>\<open>re_decimal = r'\.0*\s*$'\<close>: from
  the leftmost dot that is followed by zeros and whitespace only, the rest is cut.\<close>

fun drop_decimal :: "pystr \<Rightarrow> pystr" where
  "drop_decimal [] = []"
| "drop_decimal (c # cs) =
     (if c = 46 \<and> list_all py_isspace (dropWhile (\<lambda>x. x = 48) cs) then []
      else c # drop_decimal cs)"

section \<open>Field validation\<close>

text \<open>Error codes of DRF's fields, in the order the field reports them.\<close>

datatype verr = Required | Null | Blank | Invalid | MaxLength nat | NullChar | MaxStringLength

text \<open>
  \<^verbatim>\<open>CharField(max_length=n).run_validation(data)\<close>, where \<open>None\<close> is a key missing
  from the request (DRF's \<^verbatim>\<open>empty\<close>): a string that is blank after stripping is
  \<^verbatim>\<open>blank\<close>; a missing key is \<^verbatim>\<open>required\<close>; \<^verbatim>\<open>null\<close> is refused; a boolean, list or
  object is \<^verbatim>\<open>invalid\<close>; a string or number is turned into its stripped \<^verbatim>\<open>str\<close>, and the
  validators \<^verbatim>\<open>MaxLengthValidator\<close> and \<^verbatim>\<open>ProhibitNullCharactersValidator\<close> run on it,
  each adding its error.
\<close>

definition char_validators :: "nat \<Rightarrow> pystr \<Rightarrow> verr list" where
  "char_validators n s =
     (if n < length s then [MaxLength n] else []) @ (if 0 \<in> set s then [NullChar] else [])"

definition char_checked :: "nat \<Rightarrow> pystr \<Rightarrow> verr list + pystr" where
  "char_checked n s = (if char_validators n s = [] then Inr s else Inl (char_validators n s))"

fun char_field :: "nat \<Rightarrow> json option \<Rightarrow> verr list + pystr" where
  "char_field n None = Inl [Required]"
| "char_field n (Some (JStr s)) = (if py_strip s = [] then Inl [Blank] else char_checked n (py_strip s))"
| "char_field n (Some JNull) = Inl [Null]"
| "char_field n (Some (JInt i)) = char_checked n (py_strip (py_str_of_int i))"
| "char_field n (Some (JBool b)) = Inl [Invalid]"
| "char_field n (Some (JList xs)) = Inl [Invalid]"
| "char_field n (Some (JObj kvs)) = Inl [Invalid]"

text \<open>
  \<^verbatim>\<open>IntegerField().run_validation(data)\<close>: \<^verbatim>\<open>int(re_decimal.sub('', str(data)))\<close>,
  with strings longer than 1000 refused first. \<^verbatim>\<open>str\<close> of a boolean is
  \<^verbatim>\<open>'True'\<close> or \<^verbatim>\<open>'False'\<close>, which \<^verbatim>\<open>int\<close> refuses; \<^verbatim>\<open>str\<close> of a list or an object
  starts with a bracket, which \<^verbatim>\<open>int\<close> refuses too.
\<close>

definition int_of_text :: "pystr \<Rightarrow> verr list + int" where
  "int_of_text s = (case py_int (drop_decimal s) of None \<Rightarrow> Inl [Invalid] | Some i \<Rightarrow> Inr i)"

fun integer_field :: "json option \<Rightarrow> verr list + int" where
  "integer_field None = Inl [Required]"
| "integer_field (Some JNull) = Inl [Null]"
| "integer_field (Some (JStr s)) = (if 1000 < length s then Inl [MaxStringLength] else int_of_text s)"
| "integer_field (Some (JInt i)) = int_of_text (py_str_of_int i)"
| "integer_field (Some (JBool b)) = int_of_text (py_str (if b then ''True'' else ''False''))"
| "integer_field (Some (JList xs)) = Inl [Invalid]"
| "integer_field (Some (JObj kvs)) = Inl [Invalid]"

section \<open>Decimal rendering and parsing\<close>

lemma nat_digits_range: "c \<in> set (nat_digits n) \<Longrightarrow> 48 \<le> c \<and> c \<le> 57"
proof (induction n arbitrary: c rule: nat_digits.induct)
  case (1 n)
  then show ?case
    by (subst (asm) nat_digits.simps) (auto split: if_splits)
qed

lemma nat_digits_digits: "list_all is_digit (nat_digits n)"
  using nat_digits_range by (auto simp: list_all_iff is_digit_def)

lemma nat_digits_ne: "nat_digits n \<noteq> []"
  by (subst nat_digits.simps) simp

lemma digits_ok_if_digits: "xs \<noteq> [] \<Longrightarrow> list_all is_digit xs \<Longrightarrow> digits_ok xs"
  by (induction xs rule: digits_ok.induct) (auto simp: is_digit_def)

lemma digits_val_snoc:
  "is_digit c \<Longrightarrow> digits_val (xs @ [c]) = 10 * digits_val xs + (c - 48)"
  by (simp add: digits_val_def)

lemma digits_val_nat_digits: "digits_val (nat_digits n) = n"
proof (induction n rule: nat_digits.induct)
  case (1 n)
  show ?case
  proof (cases "n < 10")
    case True
    then show ?thesis by (subst nat_digits.simps) (simp add: digits_val_def is_digit_def)
  next
    case False
    then have "digits_val (nat_digits n) = 10 * digits_val (nat_digits (n div 10)) + n mod 10"
      by (subst nat_digits.simps) (simp add: digits_val_snoc is_digit_def)
    with False "1.IH" show ?thesis by simp
  qed
qed

lemma no_space_if_digits: "list_all is_digit xs \<Longrightarrow> list_all (\<lambda>c. \<not> py_isspace c) xs"
  by (auto simp: list_all_iff is_digit_def py_isspace_def)

lemma py_strip_id:
  assumes "xs \<noteq> []" "\<not> py_isspace (hd xs)" "\<not> py_isspace (last xs)"
  shows "py_strip xs = xs"
proof -
  have "dropWhile py_isspace xs = xs"
    using assms by (cases xs) auto
  moreover have "dropWhile py_isspace (rev xs) = rev xs"
    using assms by (cases "rev xs") (auto simp: last_rev[symmetric])
  ultimately show ?thesis by (simp add: py_strip_def)
qed

lemma nat_digits_hd_last:
  "\<not> py_isspace (hd (nat_digits n)) \<and> \<not> py_isspace (last (nat_digits n))"
  using nat_digits_range[OF hd_in_set[OF nat_digits_ne[of n]]]
    nat_digits_range[OF last_in_set[OF nat_digits_ne[of n]]]
  by (auto simp: py_isspace_def)

lemma py_strip_nat_digits: "py_strip (nat_digits n) = nat_digits n"
  using nat_digits_ne nat_digits_hd_last by (blast intro: py_strip_id)

lemma py_strip_neg_digits: "py_strip (45 # nat_digits n) = 45 # nat_digits n"
  using nat_digits_ne[of n] nat_digits_hd_last[of n]
  by (intro py_strip_id) (auto simp: py_isspace_def)

lemma drop_decimal_id: "46 \<notin> set s \<Longrightarrow> drop_decimal s = s"
  by (induction s) auto

lemma py_str_of_int_no_dot: "46 \<notin> set (py_str_of_int i)"
proof
  assume "46 \<in> set (py_str_of_int i)"
  then obtain n where "46 \<in> set (nat_digits n)"
    by (auto simp: py_str_of_int_def split: if_splits)
  then show False
    using nat_digits_range by force
qed

lemma nat_digits_Cons:
  obtains c ds where "nat_digits n = c # ds" "48 \<le> c" "c \<le> 57"
  using nat_digits_ne[of n] nat_digits_range[of _ n]
  by (cases "nat_digits n") auto

lemma digits_ok_nat_digits: "digits_ok (nat_digits n)"
  by (rule digits_ok_if_digits[OF nat_digits_ne nat_digits_digits])

text \<open>\<^verbatim>\<open>int(str(i)) == i\<close>: parsing inverts rendering.\<close>

lemma py_int_str_of_int: "py_int (py_str_of_int i) = Some i"
proof (cases "i < 0")
  case True
  then show ?thesis
    by (simp add: py_str_of_int_def py_int_def py_strip_neg_digits digits_ok_nat_digits
        digits_val_nat_digits)
next
  case False
  obtain c ds where cds: "nat_digits (nat i) = c # ds" "48 \<le> c" "c \<le> 57"
    by (rule nat_digits_Cons)
  have "digits_ok (c # ds)" and "digits_val (c # ds) = nat i" and "py_strip (c # ds) = c # ds"
    using digits_ok_nat_digits[of "nat i"] digits_val_nat_digits[of "nat i"]
      py_strip_nat_digits[of "nat i"] cds(1) by simp_all
  with False cds show ?thesis
    by (simp add: py_str_of_int_def py_int_def)
qed

lemma drop_decimal_zeros: "46 \<notin> set s \<Longrightarrow> drop_decimal (s @ 46 # replicate n 48) = s"
proof (induction s)
  case Nil
  have "dropWhile (\<lambda>x. x = 48) (replicate n (48::nat)) = []" by (induction n) simp_all
  then show ?case by simp
next
  case (Cons c s)
  then show ?case by simp
qed

lemma int_of_text_str_of_int: "int_of_text (py_str_of_int i) = Inr i"
  by (simp add: int_of_text_def drop_decimal_id py_str_of_int_no_dot py_int_str_of_int)

section \<open>What the character field accepts\<close>

lemma py_strip_idem: "py_strip (py_strip s) = py_strip s"
proof -
  let ?P = py_isspace
  define t where "t = dropWhile ?P s"
  define u where "u = dropWhile ?P (rev t)"
  have ps: "py_strip s = rev u" by (simp add: py_strip_def t_def u_def)
  have u1: "dropWhile ?P u = u"
    unfolding u_def by (simp add: dropWhile_eq_self_iff hd_dropWhile)
  have u2: "dropWhile ?P (rev u) = rev u"
  proof (cases "u = []")
    case True
    then show ?thesis by simp
  next
    case False
    then have "last u = last (rev t)"
      unfolding u_def dropWhile_eq_drop by (simp add: last_drop)
    moreover have "t \<noteq> []" using False by (auto simp: u_def)
    ultimately have "\<not> ?P (last u)"
      using hd_dropWhile[of ?P s] by (simp add: t_def last_rev)
    with False show ?thesis by (simp add: dropWhile_eq_self_iff hd_rev)
  qed
  show ?thesis
    unfolding ps using u1 u2 by (simp only: py_strip_def rev_rev_ident)
qed
lemma py_strip_hd:
  assumes "py_strip s \<noteq> []"
  shows "\<not> py_isspace (hd (py_strip s))"
proof -
  define t where "t = dropWhile py_isspace s"
  define u where "u = dropWhile py_isspace (rev t)"
  have ps: "py_strip s = rev u" by (simp add: py_strip_def t_def u_def)
  with assms have u: "u \<noteq> []" by simp
  then have "last u = last (rev t)"
    unfolding u_def dropWhile_eq_drop by (simp add: last_drop)
  moreover have "t \<noteq> []" using u by (auto simp: u_def)
  ultimately have "\<not> py_isspace (last u)"
    using hd_dropWhile[of py_isspace s] by (simp add: t_def last_rev)
  with u show ?thesis by (simp add: ps hd_rev)
qed

lemma py_strip_last:
  assumes "py_strip s \<noteq> []"
  shows "\<not> py_isspace (last (py_strip s))"
proof -
  define u where "u = dropWhile py_isspace (rev (dropWhile py_isspace s))"
  have ps: "py_strip s = rev u" by (simp add: py_strip_def u_def)
  with assms have "u \<noteq> []" by simp
  then have "\<not> py_isspace (hd u)" unfolding u_def by (rule hd_dropWhile)
  then show ?thesis by (simp add: ps last_rev)
qed

lemma clean_ends:
  assumes "py_strip c = c" and "c \<noteq> []"
  shows "\<not> py_isspace (hd c)" and "\<not> py_isspace (last c)"
  using py_strip_hd[of c] py_strip_last[of c] assms by simp_all

lemma py_strip_append_spaces:
  assumes "py_strip c = c" and "c \<noteq> []" and "list_all py_isspace ws"
  shows "py_strip (c @ ws) = c"
proof -
  note e = clean_ends[OF assms(1,2)]
  have "dropWhile py_isspace (c @ ws) = c @ ws"
    using e(1) assms(2) by (cases c) auto
  moreover have "dropWhile py_isspace (rev (c @ ws)) = rev c"
  proof -
    have "dropWhile py_isspace (rev ws @ rev c) = dropWhile py_isspace (rev c)"
      using assms(3) by (intro dropWhile_append2) (simp add: list_all_iff)
    also have "\<dots> = rev c"
      using e(2) assms(2) by (simp add: dropWhile_eq_self_iff hd_rev)
    finally show ?thesis by simp
  qed
  ultimately show ?thesis by (simp add: py_strip_def)
qed

text \<open>A text the field hands back unchanged: stripped, not blank, within the
  length bound and free of NUL characters.\<close>

definition clean_text :: "nat \<Rightarrow> pystr \<Rightarrow> bool" where
  "clean_text n s \<longleftrightarrow> py_strip s = s \<and> s \<noteq> [] \<and> length s \<le> n \<and> 0 \<notin> set s"

lemma char_checked_Inr: "char_checked n s = Inr v \<longleftrightarrow> v = s \<and> length s \<le> n \<and> 0 \<notin> set s"
  by (auto simp: char_checked_def char_validators_def split: if_splits)

lemma char_field_JStr_Inr:
  "char_field n (Some (JStr s)) = Inr v \<longleftrightarrow> v = py_strip s \<and> clean_text n v"
  by (auto simp: char_checked_Inr clean_text_def py_strip_idem)

lemma py_strip_str_of_int: "py_strip (py_str_of_int i) = py_str_of_int i"
  by (simp add: py_str_of_int_def py_strip_nat_digits py_strip_neg_digits)

lemma py_str_of_int_ne: "py_str_of_int i \<noteq> []"
  by (simp add: py_str_of_int_def nat_digits_ne)

lemma char_field_Inr_clean: "char_field n j = Inr v \<Longrightarrow> clean_text n v"
proof (induction n j rule: char_field.induct)
  case (2 n s)
  then show ?case unfolding char_field_JStr_Inr by blast
next
  case (4 n i)
  then show ?case
    by (auto simp: char_checked_Inr clean_text_def py_strip_str_of_int py_str_of_int_ne)
qed simp_all

lemma clean_text_char_field: "clean_text n s \<Longrightarrow> char_field n (Some (JStr s)) = Inr s"
  unfolding char_field_JStr_Inr by (simp add: clean_text_def)

section \<open>Properties of the integer field\<close>

text \<open>C28: a score string that is the decimal form of an integer followed by a point
  and only zeros, such as \<^verbatim>\<open>"5.00"\<close>, is accepted as that integer: the
  \<^verbatim>\<open>re_decimal\<close> rule cuts the zero fraction before \<^verbatim>\<open>int\<close> is applied.\<close>

theorem decimal_zeros_score_accepted:
  assumes "length (py_str_of_int i) + Suc n \<le> 1000"
  shows "integer_field (Some (JStr (py_str_of_int i @ 46 # replicate n 48))) = Inr i"
  using assms
  by (simp add: int_of_text_def drop_decimal_zeros py_str_of_int_no_dot py_int_str_of_int)

theorem decimal_zeros_score_accepted_witness:
  "length (py_str_of_int 5) + Suc 2 \<le> 1000 \<and>
   integer_field (Some (JStr (py_str_of_int 5 @ 46 # replicate 2 48))) = Inr 5"
proof -
  have l: "length (py_str_of_int 5) + Suc 2 \<le> 1000" by (simp add: py_str_of_int_def)
  show ?thesis using decimal_zeros_score_accepted [OF l] l by blast
qed

end
