(* ===== verification/Serializers.thy ===== *)
theory Serializers
  imports Models Drf_Fields
begin

text \<open>
  The serialization layer of \<^verbatim>\<open>src/movies/serializers.py\<close>: each
  \<^verbatim>\<open>ModelSerializer\<close> turns a row into the JSON object of its field allow-list, in the
  order of \<^verbatim>\<open>Meta.fields\<close>; \<^verbatim>\<open>GenreDetailSerializer\<close> nests the genre's movies;
  \<^verbatim>\<open>ReviewSerializer\<close> also validates incoming data (\<^verbatim>\<open>is_valid\<close>), field by field,
  collecting the errors of every field. The lemmas show the shapes are exactly the
  allow-lists, that validation accepts precisely clean content and any integer score,
  and that reading a stored review and validating the result gives the review back.
\<close>

section \<open>Output shapes\<close>

fun movie_serializer :: "nat \<times> movie \<Rightarrow> json" where
  "movie_serializer (i, m) =
     JObj [(py_str ''id'', JInt (int i)), (py_str ''title'', JStr (title m)),
           (py_str ''audience'', JInt (audience m)), (py_str ''poster_url'', JStr (poster_url m)),
           (py_str ''description'', JStr (description m)), (py_str ''genre_id'', JInt (int (genre_id m)))]"

fun genre_serializer :: "nat \<times> genre \<Rightarrow> json" where
  "genre_serializer (i, g) = JObj [(py_str ''id'', JInt (int i)), (py_str ''name'', JStr (name g))]"

text \<open>\<^verbatim>\<open>movies = MovieSerializer(source='movie_set', many=True)\<close> reads the reverse
  relation from the database, so the detail shape depends on the database.\<close>

fun genre_detail_serializer :: "db \<Rightarrow> nat \<times> genre \<Rightarrow> json" where
  "genre_detail_serializer d (i, g) =
     JObj [(py_str ''id'', JInt (int i)),
           (py_str ''movies'', JList (map movie_serializer (movie_set d i))),
           (py_str ''name'', JStr (name g))]"

definition review_serializer :: "review \<Rightarrow> json" where
  "review_serializer r = JObj [(py_str ''content'', JStr (content r)), (py_str ''score'', JInt (score r))]"

section \<open>Validation of incoming reviews\<close>

type_synonym verrors = "(pystr \<times> verr list) list"

fun field_errors :: "string \<Rightarrow> verr list + 'a \<Rightarrow> verrors" where
  "field_errors k (Inl es) = [(py_str k, es)]"
| "field_errors k (Inr v) = []"

text \<open>
  \<^verbatim>\<open>ReviewSerializer(data=d).is_valid()\<close>: a JSON \<^verbatim>\<open>null\<close> body is refused as a
  whole (\<^verbatim>\<open>non_field_errors\<close>, code \<^verbatim>\<open>null\<close>), any other non-object as \<^verbatim>\<open>invalid\<close>;
  for an object, \<^verbatim>\<open>content\<close> and \<^verbatim>\<open>score\<close> are validated in the order of
  \<^verbatim>\<open>Meta.fields\<close> and every failing field reports its errors. Other keys, such as
  \<^verbatim>\<open>id\<close> or \<^verbatim>\<open>movie_id\<close>, are ignored.
\<close>

definition review_validate :: "json \<Rightarrow> verrors + pystr \<times> int" where
  "review_validate data =
     (case data of
        JObj kvs \<Rightarrow>
          (let c = char_field 100 (dict_get kvs (py_str ''content''));
               s = integer_field (dict_get kvs (py_str ''score''))
           in case (c, s) of
                (Inr c', Inr s') \<Rightarrow> Inr (c', s')
              | _ \<Rightarrow> Inl (field_errors ''content'' c @ field_errors ''score'' s))
      | JNull \<Rightarrow> Inl [(py_str ''non_field_errors'', [Null])]
      | _ \<Rightarrow> Inl [(py_str ''non_field_errors'', [Invalid])])"

text \<open>\<^verbatim>\<open>serializer.save(**extra)\<close> after a successful validation:
  \<^verbatim>\<open>ModelSerializer.create\<close> builds a new row from the validated data and the extra
  keyword (\<^verbatim>\<open>movie_id\<close>); \<^verbatim>\<open>ModelSerializer.update\<close> sets the validated attributes on
  the instance and leaves the others.\<close>

definition review_from_validated :: "pystr \<times> int \<Rightarrow> nat \<Rightarrow> review" where
  "review_from_validated v m = \<lparr>content = fst v, score = snd v, movie_id = m\<rparr>"

definition review_update_validated :: "review \<Rightarrow> pystr \<times> int \<Rightarrow> review" where
  "review_update_validated r v = r\<lparr>content := fst v, score := snd v\<rparr>"

section \<open>Lemmas\<close>

lemma review_validate_Inr_clean:
  "review_validate data = Inr (c, s) \<Longrightarrow> clean_text 100 c"
  by (auto simp: review_validate_def Let_def intro: char_field_Inr_clean
      split: json.splits sum.splits)

text \<open>A JSON integer score is taken as it is.\<close>

lemma integer_field_JInt: "integer_field (Some (JInt i)) = Inr i"
  by (simp add: int_of_text_str_of_int)

lemma review_validate_serializer:
  "clean_text 100 (content r) \<Longrightarrow> review_validate (review_serializer r) = Inr (content r, score r)"
  by (simp add: review_validate_def review_serializer_def clean_text_char_field integer_field_JInt
      Let_def del: char_field.simps integer_field.simps)

lemma dict_get_content_score:
  "dict_get [(py_str ''content'', x), (py_str ''score'', y)] (py_str ''content'') = Some x"
  "dict_get [(py_str ''content'', x), (py_str ''score'', y)] (py_str ''score'') = Some y"
  by simp_all

text \<open>Validation of a two-key object is the pair of the two field validations.\<close>

lemma review_validate_content_score:
  "review_validate (JObj [(py_str ''content'', x), (py_str ''score'', y)]) =
     (case (char_field 100 (Some x), integer_field (Some y)) of
        (Inr c', Inr s') \<Rightarrow> Inr (c', s')
      | _ \<Rightarrow> Inl (field_errors ''content'' (char_field 100 (Some x)) @
                  field_errors ''score'' (integer_field (Some y))))"
  unfolding review_validate_def json.case Let_def dict_get_content_score ..

lemma review_validate_stripped:
  assumes "clean_text 100 (py_strip c)"
  shows "review_validate (JObj [(py_str ''content'', JStr c), (py_str ''score'', JInt s)]) =
    Inr (py_strip c, s)"
proof -
  have "char_field 100 (Some (JStr c)) = Inr (py_strip c)"
    using assms char_field_JStr_Inr by blast
  then show ?thesis unfolding review_validate_content_score integer_field_JInt by simp
qed

text \<open>Validation reads the payload only through its \<^verbatim>\<open>content\<close> and \<^verbatim>\<open>score\<close>
  entries.\<close>

lemma review_validate_keys:
  assumes "dict_get kvs (py_str ''content'') = dict_get kvs' (py_str ''content'')"
    and "dict_get kvs (py_str ''score'') = dict_get kvs' (py_str ''score'')"
  shows "review_validate (JObj kvs) = review_validate (JObj kvs')"
  using assms by (simp add: review_validate_def Let_def del: char_field.simps integer_field.simps)

lemma clean_great: "clean_text 100 (py_str ''great'')"
  by (simp add: clean_text_def py_strip_def py_isspace_def py_str_simps)

section \<open>Properties of review validation\<close>

text \<open>C17: whatever \<^verbatim>\<open>ReviewSerializer\<close> accepts survives being stored and read
  back: the review shape of the stored row validates to the same data.\<close>

theorem validated_review_roundtrip:
  "review_validate data = Inr (c, s) \<Longrightarrow>
   review_validate (review_serializer (review_from_validated (c, s) mv)) = Inr (c, s)"
  using review_validate_serializer[of "review_from_validated (c, s) mv"] review_validate_Inr_clean
  by (simp add: review_from_validated_def)

theorem validated_review_roundtrip_witness:
  "review_validate (JObj [(py_str ''content'', JStr (py_str ''great'')), (py_str ''score'', JInt 5)]) =
     Inr (py_str ''great'', 5) \<and>
   review_validate (review_serializer (review_from_validated (py_str ''great'', 5) 3)) = Inr (py_str ''great'', 5)"
proof -
  have h: "review_validate (JObj [(py_str ''content'', JStr (py_str ''great'')), (py_str ''score'', JInt 5)]) =
     Inr (py_str ''great'', 5)"
    using review_validate_serializer[of "\<lparr>content = py_str ''great'', score = 5, movie_id = 0\<rparr>"] clean_great
    by (simp add: review_serializer_def)
  show ?thesis using validated_review_roundtrip [OF h, of 3] h by blast
qed

text \<open>C18: for a string \<open>content\<close> and an integer \<open>score\<close>, validation succeeds exactly
  when the stripped content is clean, and then yields the stripped content and the
  score.\<close>

theorem review_validate_exact:
  "review_validate (JObj [(py_str ''content'', JStr c), (py_str ''score'', JInt s)]) = Inr v \<longleftrightarrow>
   v = (py_strip c, s) \<and> clean_text 100 (py_strip c)"
proof (cases "char_field 100 (Some (JStr c))")
  case (Inl es)
  have "review_validate (JObj [(py_str ''content'', JStr c), (py_str ''score'', JInt s)]) =
      Inl (field_errors ''content'' (Inl es) @ field_errors ''score'' (Inr s :: verr list + int))"
    unfolding review_validate_content_score Inl integer_field_JInt by simp
  moreover have "\<not> clean_text 100 (py_strip c)"
    using Inl char_field_JStr_Inr[of 100 c "py_strip c"] by simp
  ultimately show ?thesis by simp
next
  case (Inr c')
  then have c': "c' = py_strip c \<and> clean_text 100 c'"
    using char_field_JStr_Inr[of 100 c c'] by blast
  have "review_validate (JObj [(py_str ''content'', JStr c), (py_str ''score'', JInt s)]) = Inr (c', s)"
    unfolding review_validate_content_score Inr integer_field_JInt by simp
  then show ?thesis using c' by (simp only: sum.inject) blast
qed

text \<open>C19: content is stripped before its length is checked, so a text of at most
  100 code points padded with any amount of whitespace is accepted and stored
  without the padding, although the submitted string is longer than 100.\<close>

theorem padded_content_trimmed:
  assumes "clean_text 100 c" and "list_all py_isspace ws"
  shows "review_validate (JObj [(py_str ''content'', JStr (c @ ws)), (py_str ''score'', JInt s)]) = Inr (c, s)"
proof -
  have "py_strip (c @ ws) = c"
    using assms by (intro py_strip_append_spaces) (simp_all add: clean_text_def)
  with assms(1) show ?thesis by (simp add: review_validate_stripped)
qed

theorem padded_content_trimmed_witness:
  "clean_text 100 (py_str ''great'') \<and> list_all py_isspace (replicate 96 32) \<and>
   100 < length (py_str ''great'' @ replicate 96 32) \<and>
   review_validate (JObj [(py_str ''content'', JStr (py_str ''great'' @ replicate 96 32)), (py_str ''score'', JInt 5)]) =
     Inr (py_str ''great'', 5)"
proof -
  have ws: "list_all py_isspace (replicate 96 (32::nat))" by (simp add: py_isspace_def list_all_iff)
  show ?thesis using padded_content_trimmed [OF clean_great ws, of 5] clean_great ws by simp
qed

text \<open>C20: a score sent as the decimal string of an integer (at most 1000 characters)
  is accepted as that integer, not only a JSON number.\<close>

theorem string_score_accepted:
  assumes "clean_text 100 c" and "length (py_str_of_int s) \<le> 1000"
  shows "review_validate (JObj [(py_str ''content'', JStr c), (py_str ''score'', JStr (py_str_of_int s))]) =
    Inr (c, s)"
  using assms
  by (simp add: review_validate_def Let_def clean_text_char_field int_of_text_str_of_int
      del: char_field.simps)

theorem string_score_accepted_witness:
  "clean_text 100 (py_str ''great'') \<and> length (py_str_of_int (-12)) \<le> 1000 \<and>
   review_validate (JObj [(py_str ''content'', JStr (py_str ''great'')), (py_str ''score'', JStr (py_str_of_int (-12)))]) =
    Inr (py_str ''great'', -12)"
proof -
  have l: "length (py_str_of_int (-12)) \<le> 1000"
    by (simp add: py_str_of_int_def)
  show ?thesis using string_score_accepted [OF clean_great l] clean_great l by blast
qed

text \<open>C23: a payload with neither \<^verbatim>\<open>content\<close> nor \<^verbatim>\<open>score\<close> is refused with a
  \<^verbatim>\<open>required\<close> error on each field, in the order of \<^verbatim>\<open>Meta.fields\<close>: validation
  reports every failing field, not only the first, and ignores other keys.\<close>

theorem missing_fields_all_reported:
  assumes "dict_get kvs (py_str ''content'') = None" and "dict_get kvs (py_str ''score'') = None"
  shows "review_validate (JObj kvs) = Inl [(py_str ''content'', [Required]), (py_str ''score'', [Required])]"
  using assms by (simp add: review_validate_def Let_def)

theorem missing_fields_all_reported_witness:
  "dict_get [(py_str ''title'', JStr [])] (py_str ''content'') = None \<and>
   dict_get [(py_str ''title'', JStr [])] (py_str ''score'') = None \<and>
   review_validate (JObj [(py_str ''title'', JStr [])]) =
     Inl [(py_str ''content'', [Required]), (py_str ''score'', [Required])]"
proof -
  have h: "dict_get [(py_str ''title'', JStr [])] (py_str ''content'') = None"
    "dict_get [(py_str ''title'', JStr [])] (py_str ''score'') = None"
    by simp_all
  show ?thesis using missing_fields_all_reported [OF h] h by blast
qed

text \<open>C24: a score sent as a string longer than 1000 characters is refused with
  \<^verbatim>\<open>max_string_length\<close> before any conversion is tried, whatever its characters.\<close>

theorem long_score_string_refused:
  assumes "clean_text 100 (py_strip c)" and "1000 < length s"
  shows "review_validate (JObj [(py_str ''content'', JStr c), (py_str ''score'', JStr s)]) =
    Inl [(py_str ''score'', [MaxStringLength])]"
proof -
  have "char_field 100 (Some (JStr c)) = Inr (py_strip c)"
    using assms(1) char_field_JStr_Inr by blast
  then show ?thesis
    using assms(2) unfolding review_validate_content_score by simp
qed

theorem long_score_string_refused_witness:
  "clean_text 100 (py_strip (py_str ''great'')) \<and> 1000 < length (replicate 1001 (49::nat)) \<and>
   review_validate (JObj [(py_str ''content'', JStr (py_str ''great'')), (py_str ''score'', JStr (replicate 1001 49))]) =
    Inl [(py_str ''score'', [MaxStringLength])]"
proof -
  have c: "clean_text 100 (py_strip (py_str ''great''))"
    using clean_great by (simp add: clean_text_def)
  have l: "1000 < length (replicate 1001 (49::nat))" by simp
  show ?thesis using long_score_string_refused [OF c l] c l by blast
qed

end
