(* ===== verification/Views.thy ===== *)
theory Views
  imports Serializers
begin

text \<open>
  The request handlers of \<^verbatim>\<open>src/movies/views.py\<close>. Each view is a function of the
  database and the request to the new database and a response; a response is either
  an error, which the framework turns into an error status (\<^verbatim>\<open>Http404\<close> from
  \<^verbatim>\<open>get_object_or_404\<close>, a serializer \<^verbatim>\<open>ValidationError\<close> raised by
  \<^verbatim>\<open>is_valid(raise_exception=True)\<close>, a method outside the \<^verbatim>\<open>@api_view\<close> list, or
  the database's \<^verbatim>\<open>IntegrityError\<close>), or the JSON body of a 200 response. Reading
  views leave the database unchanged; the review views write it through the ORM
  operations of \<open>Models\<close>, and the detail view writes only the row it is asked for.
\<close>

section \<open>Requests and responses\<close>

datatype http_method = GET | POST | PUT | PATCH | DELETE

datatype error =
    Http404
  | ValidationError verrors
  | MethodNotAllowed http_method
  | DbIntegrityError

type_synonym response = "error + json"

text \<open>The status code the framework sends for each outcome.\<close>

fun status :: "response \<Rightarrow> nat" where
  "status (Inr body) = 200"
| "status (Inl Http404) = 404"
| "status (Inl (ValidationError es)) = 400"
| "status (Inl (MethodNotAllowed m)) = 405"
| "status (Inl DbIntegrityError) = 500"

text \<open>\<^verbatim>\<open>get_object_or_404(Model, id=i)\<close>.\<close>

definition get_object_or_404 :: "'r table \<Rightarrow> nat \<Rightarrow> error + 'r" where
  "get_object_or_404 t i = (case objects_get t i of Inl e \<Rightarrow> Inl Http404 | Inr r \<Rightarrow> Inr r)"

text \<open>\<^verbatim>\<open>@api_view(methods)\<close>: a request with another method is answered 405 and the
  view body does not run.\<close>

definition api_view ::
  "http_method list \<Rightarrow> http_method \<Rightarrow> (db \<Rightarrow> db \<times> response) \<Rightarrow> db \<Rightarrow> db \<times> response" where
  "api_view allowed m h d = (if m \<in> set allowed then h d else (d, Inl (MethodNotAllowed m)))"

text \<open>The confirmation bodies \<^verbatim>\<open>{'message': ...}\<close>, with the Korean texts of
  \<^verbatim>\<open>views.py\<close> lines 37, 51 and 54 as code points: U+C791 U+C131 (created),
  U+C218 U+C815 (updated) and U+C0AD U+C81C (deleted), each followed by the common
  ending U+B418 U+C5C8 U+C2B5 U+B2C8 U+B2E4 and a full stop.\<close>

definition message :: "pystr \<Rightarrow> json" where
  "message m = JObj [(py_str ''message'', JStr m)]"

definition msg_created :: pystr where
  "msg_created = [51089, 49457, 46104, 50632, 49845, 45768, 45796, 46]"

definition msg_updated :: pystr where
  "msg_updated = [49688, 51221, 46104, 50632, 49845, 45768, 45796, 46]"

definition msg_deleted :: pystr where
  "msg_deleted = [49325, 51228, 46104, 50632, 49845, 45768, 45796, 46]"

section \<open>The views\<close>

definition genre_list :: "db \<Rightarrow> json" where
  "genre_list d = JList (map genre_serializer (genre_tbl d))"

definition genre_detail :: "db \<Rightarrow> nat \<Rightarrow> response" where
  "genre_detail d i =
     (case get_object_or_404 (genre_tbl d) i of
        Inl e \<Rightarrow> Inl e
      | Inr g \<Rightarrow> Inr (genre_detail_serializer d (i, g)))"

definition movie_list :: "db \<Rightarrow> json" where
  "movie_list d = JList (map movie_serializer (movie_tbl d))"

definition movie_detail :: "db \<Rightarrow> nat \<Rightarrow> response" where
  "movie_detail d i =
     (case get_object_or_404 (movie_tbl d) i of
        Inl e \<Rightarrow> Inl e
      | Inr m \<Rightarrow> Inr (movie_serializer (i, m)))"

text \<open>\<^verbatim>\<open>review_create\<close>: validate, then \<^verbatim>\<open>serializer.save(movie_id=id)\<close>. The movie
  is not looked up first: a missing movie surfaces as the database's
  \<^verbatim>\<open>IntegrityError\<close>. The final \<^verbatim>\<open>return Response(serializer.data)\<close> is unreachable,
  since \<^verbatim>\<open>is_valid(raise_exception=True)\<close> either raises or returns true.\<close>

definition review_create :: "db \<Rightarrow> json \<Rightarrow> nat \<Rightarrow> db \<times> response" where
  "review_create d data i =
     (case review_validate data of
        Inl errs \<Rightarrow> (d, Inl (ValidationError errs))
      | Inr v \<Rightarrow>
          (case review_create_row d (review_from_validated v i) of
             Inl e \<Rightarrow> (d, Inl DbIntegrityError)
           | Inr (k, d') \<Rightarrow> (d', Inr (message msg_created))))"

text \<open>\<^verbatim>\<open>review_detail\<close>: the review is fetched before the method is looked at, so
  every method answers 404 for a missing review. \<^verbatim>\<open>GET\<close> reads, \<^verbatim>\<open>PUT\<close> validates and
  saves the instance, and every other method takes the \<^verbatim>\<open>else\<close> branch and deletes.\<close>

definition review_detail :: "db \<Rightarrow> http_method \<Rightarrow> json \<Rightarrow> nat \<Rightarrow> db \<times> response" where
  "review_detail d m data i =
     (case get_object_or_404 (review_tbl d) i of
        Inl e \<Rightarrow> (d, Inl e)
      | Inr r \<Rightarrow>
          if m = GET then (d, Inr (review_serializer r))
          else if m = PUT then
            (case review_validate data of
               Inl errs \<Rightarrow> (d, Inl (ValidationError errs))
             | Inr v \<Rightarrow>
                 (case review_save d i (review_update_validated r v) of
                    Inl e \<Rightarrow> (d, Inl DbIntegrityError)
                  | Inr d' \<Rightarrow> (d', Inr (message msg_updated))))
          else (review_delete d i, Inr (message msg_deleted)))"

section \<open>Behaviour of the views\<close>

lemma get_object_or_404_eq [simp]:
  "get_object_or_404 t i = (case map_of t i of None \<Rightarrow> Inl Http404 | Some r \<Rightarrow> Inr r)"
  by (simp add: get_object_or_404_def objects_get_def split: option.splits)

lemma review_detail_missing [db_simps]:
  "i \<notin> keys (review_tbl d) \<Longrightarrow> review_detail d m data i = (d, Inl Http404)"
  by (simp add: review_detail_def)

lemma review_detail_GET [db_simps]:
  "map_of (review_tbl d) i = Some r \<Longrightarrow> review_detail d GET data i = (d, Inr (review_serializer r))"
  by (simp add: review_detail_def)

lemma review_detail_PUT [db_simps]:
  assumes "map_of (review_tbl d) i = Some r" and "review_validate data = Inr v"
  shows "review_detail d PUT data i =
    (d\<lparr>review_tbl := tbl_upd i (review_update_validated r v) (review_tbl d)\<rparr>, Inr (message msg_updated))"
proof -
  have "i \<in> keys (review_tbl d)" using assms(1) by (rule map_of_Some_keys)
  then show ?thesis
    using assms by (simp add: review_detail_def review_save_tbl_upd)
qed

lemma review_detail_DELETE [db_simps]:
  assumes "i \<in> keys (review_tbl d)"
  shows "review_detail d DELETE data i = (review_delete d i, Inr (message msg_deleted))"
proof -
  obtain r where "map_of (review_tbl d) i = Some r"
    using keys_map_of_Some[OF assms] by blast
  then show ?thesis by (simp add: review_detail_def)
qed

lemma review_create_invalid [db_simps]:
  "review_validate data = Inl es \<Longrightarrow> review_create d data mv = (d, Inl (ValidationError es))"
  by (simp add: review_create_def)

lemma review_create_no_movie [db_simps]:
  assumes "review_validate data = Inr v" and "mv \<notin> keys (movie_tbl d)"
  shows "review_create d data mv = (d, Inl DbIntegrityError)"
  using assms by (simp add: review_create_def review_create_row_def review_from_validated_def)

section \<open>Effects of the views on the database\<close>

text \<open>A view that answers an error has not written: every write is the last step
  before a success response.\<close>

lemma review_create_Inl: "review_create d data i = (d', Inl e) \<Longrightarrow> d' = d"
  by (auto simp: review_create_def split: sum.splits prod.splits if_splits)

lemma review_detail_Inl: "review_detail d m data i = (d', Inl e) \<Longrightarrow> d' = d"
  by (auto simp: review_detail_def split: option.splits sum.splits if_splits)

lemma review_detail_GET_db: "fst (review_detail d GET data i) = d"
  by (simp add: review_detail_def split: option.splits)

text \<open>The invariant is kept by the writing views.\<close>

lemma wf_review_create_view [wf_intros]:
  "wf_db d \<Longrightarrow> wf_db (fst (review_create d data i))"
  by (auto simp: review_create_def intro: wf_review_create_row split: sum.splits prod.splits)

lemma wf_review_detail_view [wf_intros]:
  assumes "wf_db d"
  shows "wf_db (fst (review_detail d m data i))"
proof (cases "map_of (review_tbl d) i")
  case None
  then show ?thesis using assms by (simp add: review_detail_def)
next
  case (Some r)
  then have "(i, r) \<in> set (review_tbl d)" by (rule map_of_SomeD)
  then have mv: "movie_id r \<in> keys (movie_tbl d)" using assms by (rule wf_dbD(5)[rotated])
  have "wf_db d'" if "review_save d i (review_update_validated r v) = Inr d'" for v d'
  proof (rule wf_review_save[OF assms _ that])
    show "movie_id (review_update_validated r v) \<in> keys (movie_tbl d)"
      using mv by (simp add: review_update_validated_def)
  qed
  with Some assms show ?thesis
    by (auto simp: review_detail_def intro: wf_review_delete split: sum.splits)
qed

section \<open>The detail view writes one row\<close>

text \<open>What \<open>review_detail\<close> does with key \<open>i\<close> depends only on the row stored under
  \<open>i\<close>, and its write is confined to that row: it is the same row write and the same
  response in every database that holds the same row under \<open>i\<close>.\<close>

lemma review_detail_local:
  "\<exists>E resp. row_write i E \<and>
     (\<forall>d'. map_of (review_tbl d') i = map_of (review_tbl d) i \<longrightarrow>
        review_detail d' m b i = (d'\<lparr>review_tbl := E (review_tbl d')\<rparr>, resp))"
proof (cases "map_of (review_tbl d) i")
  case None
  then show ?thesis
    by (intro exI[of _ id] exI[of _ "Inl Http404"]) (simp add: review_detail_def row_write_def)
next
  case (Some r)
  have keys: "i \<in> keys (review_tbl d')" if "map_of (review_tbl d') i = Some r" for d' :: db
    using that by (rule map_of_Some_keys)
  consider "m = GET" | es where "m = PUT" "review_validate b = Inl es"
    | v where "m = PUT" "review_validate b = Inr v" | "m \<noteq> GET" "m \<noteq> PUT"
    by (cases "review_validate b") auto
  then show ?thesis
  proof cases
    case 1
    with Some show ?thesis
      by (intro exI[of _ id] exI[of _ "Inr (review_serializer r)"]) (simp add: review_detail_def row_write_def)
  next
    case (2 es)
    with Some show ?thesis
      by (intro exI[of _ id] exI[of _ "Inl (ValidationError es)"]) (simp add: review_detail_def row_write_def)
  next
    case (3 v)
    with Some keys show ?thesis
      by (intro exI[of _ "tbl_upd i (review_update_validated r v)"] exI[of _ "Inr (message msg_updated)"])
        (auto simp: review_detail_def row_write_def review_save_tbl_upd)
  next
    case 4
    with Some show ?thesis
      by (intro exI[of _ "filter (\<lambda>(k, x). k \<noteq> i)"] exI[of _ "Inr (message msg_deleted)"])
        (auto simp: review_detail_def row_write_def review_delete_def)
  qed
qed

text \<open>The writing views keep the tables in key order.\<close>

lemma asc_review_create_view [asc_intros]:
  "wf_db d \<Longrightarrow> db_ascending d \<Longrightarrow> db_ascending (fst (review_create d data i))"
  by (auto simp: review_create_def intro: asc_review_create_row split: sum.splits prod.splits)

lemma asc_review_detail_view [asc_intros]:
  assumes "db_ascending d"
  shows "db_ascending (fst (review_detail d m data i))"
proof -
  obtain E resp where E: "row_write i E" and
    "\<forall>d'. map_of (review_tbl d') i = map_of (review_tbl d) i \<longrightarrow>
        review_detail d' m data i = (d'\<lparr>review_tbl := E (review_tbl d')\<rparr>, resp)"
    using review_detail_local by blast
  then have "review_detail d m data i = (d\<lparr>review_tbl := E (review_tbl d)\<rparr>, resp)"
    by blast
  with assms ascending_row_write[OF E] show ?thesis
    by (simp add: db_ascending_def)
qed

section \<open>The views on the abstract review store\<close>

text \<open>Seen through \<open>review_map\<close>, each review view performs one operation of
  \<open>store_op\<close>, and no view writes the genre or movie tables.\<close>

lemma store_op_review_create:
  assumes wf: "wf_db d"
  shows "store_op (review_map d) (review_map (fst (review_create d data i)))"
proof (cases "review_validate data")
  case (Inl es)
  then show ?thesis by (simp add: review_create_def store_op.keep)
next
  case (Inr v)
  note val = this
  show ?thesis
  proof (cases "review_create_row d (review_from_validated v i)")
    case (Inl e)
    with val show ?thesis by (simp add: review_create_def store_op.keep)
  next
    case (Inr kd)
    obtain k d1 where kd: "kd = (k, d1)" by fastforce
    have "k \<notin> dom (review_map d) \<and> review_map d1 = (review_map d)(k \<mapsto> review_from_validated v i)"
      using review_map_create_row[OF wf] Inr kd by blast
    with val Inr kd show ?thesis by (simp add: review_create_def store_op.insert store_op.keep)
  qed
qed

lemma store_op_review_detail:
  "store_op (review_map d) (review_map (fst (review_detail d m data i)))"
proof (cases "map_of (review_tbl d) i")
  case None
  then show ?thesis by (simp add: review_detail_def store_op.keep)
next
  case (Some r)
  then have i: "i \<in> dom (review_map d)" by (simp add: review_map_def domIff)
  have put: "store_op (review_map d) (review_map d')" if "review_save d i x = Inr d'" for x d'
    using review_map_save[OF i that] store_op.update[OF i] by simp
  show ?thesis
    using Some put store_op.keep store_op.remove[OF i]
    by (auto simp: review_detail_def review_map_delete split: sum.splits)
qed

lemma review_views_keep_catalogue:
  "genre_tbl (fst (review_create d data i)) = genre_tbl d \<and>
   movie_tbl (fst (review_create d data i)) = movie_tbl d"
  "genre_tbl (fst (review_detail d m data i)) = genre_tbl d \<and>
   movie_tbl (fst (review_detail d m data i)) = movie_tbl d"
  by (auto simp: review_create_def review_create_row_def review_detail_def review_save_def
      review_delete_def Let_def split: sum.splits option.splits if_splits)

section \<open>Stored content is what validation accepts\<close>

text \<open>Every stored review's content is a clean text of at most 100 code points: the
  views store only content that \<open>review_validate\<close> returned.\<close>

definition reviews_clean :: "db \<Rightarrow> bool" where
  "reviews_clean d \<longleftrightarrow> (\<forall>(k, r) \<in> set (review_tbl d). clean_text 100 (content r))"

lemma reviews_clean_review_create:
  assumes "reviews_clean d"
  shows "reviews_clean (fst (review_create d data i))"
proof -
  have "clean_text 100 (content (review_from_validated v i))" if "review_validate data = Inr v" for v
    using that review_validate_Inr_clean[of data "fst v" "snd v"]
    by (simp add: review_from_validated_def)
  then show ?thesis
    using assms
    by (auto simp: review_create_def review_create_row_def reviews_clean_def Let_def
        split: sum.splits prod.splits if_splits)
qed

lemma reviews_clean_review_detail:
  assumes "reviews_clean d"
  shows "reviews_clean (fst (review_detail d m data i))"
proof -
  have upd: "reviews_clean (d\<lparr>review_tbl := tbl_upd i (review_update_validated r v) (review_tbl d)\<rparr>)"
    if "review_validate data = Inr v" for r v
  proof -
    have "clean_text 100 (content (review_update_validated r v))"
      using that review_validate_Inr_clean[of data "fst v" "snd v"]
      by (simp add: review_update_validated_def)
    then show ?thesis
      using assms by (auto simp: reviews_clean_def dest!: in_set_tbl_upd)
  qed
  show ?thesis
    using assms upd
    by (auto simp: review_detail_def review_save_tbl_upd map_of_Some_keys reviews_clean_def
        review_delete_def split: option.splits sum.splits)
qed

section \<open>Review keys only grow\<close>

text \<open>Between two databases, the review counter does not go back and every review key
  of the later one was either there before or is above the earlier counter.\<close>

definition keys_grow :: "db \<Rightarrow> db \<Rightarrow> bool" where
  "keys_grow d d' \<longleftrightarrow>
     review_seq d \<le> review_seq d' \<and> keys (review_tbl d') \<subseteq> keys (review_tbl d) \<union> {k. review_seq d < k}"

lemma keys_grow_refl [simp]: "keys_grow d d"
  by (simp add: keys_grow_def)

lemma grow_sets_trans:
  "(B::nat set) \<subseteq> A \<union> {k. a < k} \<Longrightarrow> C \<subseteq> B \<union> {k. b < k} \<Longrightarrow> a \<le> b \<Longrightarrow> C \<subseteq> A \<union> {k. a < k}"
  by auto
lemma keys_grow_trans:
  assumes "keys_grow d1 d2" and "keys_grow d2 d3"
  shows "keys_grow d1 d3"
proof -
  have 1: "review_seq d1 \<le> review_seq d2"
    and 2: "keys (review_tbl d2) \<subseteq> keys (review_tbl d1) \<union> {k. review_seq d1 < k}"
    using assms(1) unfolding keys_grow_def by (rule conjunct1, rule conjunct2)
  have 3: "review_seq d2 \<le> review_seq d3"
    and 4: "keys (review_tbl d3) \<subseteq> keys (review_tbl d2) \<union> {k. review_seq d2 < k}"
    using assms(2) unfolding keys_grow_def by (rule conjunct1, rule conjunct2)
  have "keys (review_tbl d3) \<subseteq> keys (review_tbl d1) \<union> {k. review_seq d1 < k}"
    by (rule grow_sets_trans[OF 2 4 1])
  with 1 3 show ?thesis unfolding keys_grow_def by simp
qed
lemma keys_grow_review_create: "keys_grow d (fst (review_create d data i))"
  by (auto simp: review_create_def review_create_row_def keys_grow_def Let_def
      split: sum.splits if_splits)

lemma keys_grow_review_detail: "keys_grow d (fst (review_detail d m data i))"
proof (cases "map_of (review_tbl d) i")
  case None
  then show ?thesis by (simp add: review_detail_def)
next
  case (Some r)
  then have i: "i \<in> keys (review_tbl d)" by (rule map_of_Some_keys)
  have upd: "keys_grow d (d\<lparr>review_tbl := tbl_upd i x (review_tbl d)\<rparr>)" for x
    by (simp add: keys_grow_def)
  have del: "keys_grow d (review_delete d i)"
    by (auto simp: keys_grow_def review_delete_def)
  show ?thesis
    using Some upd del by (simp add: review_detail_def review_save_tbl_upd[OF i] split: sum.splits)
qed

end
