(* ===== verification/Urls.thy ===== *)
theory Urls
  imports Views
begin

text \<open>
  The router of \<^verbatim>\<open>src/movies/urls.py\<close>: the six \<^verbatim>\<open>path()\<close> entries of
  \<^verbatim>\<open>urlpatterns\<close>, relative to the point where the project includes the app, as
  routes made of literals and \<^verbatim>\<open><int:id>\<close> parameters; Django's resolution, which
  tries them in order; \<^verbatim>\<open>reverse()\<close>, which renders a route as a path; and the binding
  of each route to its view behind the view's \<^verbatim>\<open>@api_view\<close> method list. A reference
  reading of the same routes by \<^verbatim>\<open>/\<close>-separated segments is proved equal to the
  ordered resolution, no path matches two patterns, and resolution inverts reversal.
\<close>

section \<open>Routes\<close>

datatype route =
    Genre_list
  | Genre_detail nat
  | Movie_list
  | Movie_detail nat
  | Review_create nat
  | Review_detail nat

section \<open>The URL patterns\<close>

text \<open>A \<^verbatim>\<open>path()\<close> route is a sequence of literal text and \<^verbatim>\<open><int:name>\<close>
  parameters. Django compiles it to the anchored regular expression
  \<^verbatim>\<open>^genres/(?P<id>[0-9]+)/\Z\<close> and converts each captured group with \<^verbatim>\<open>int\<close>.
  The matcher takes a literal as a prefix and a parameter as the longest run of ASCII
  digits; since in every pattern of the app a parameter is followed by \<^verbatim>\<open>/\<close>, the
  longest run is the only one the regular expression can accept.\<close>

datatype part = Lit pystr | Int_param

fun match_route :: "part list \<Rightarrow> pystr \<Rightarrow> nat list option" where
  "match_route [] p = (if p = [] then Some [] else None)"
| "match_route (Lit s # ps) p =
     (if take (length s) p = s then match_route ps (drop (length s) p) else None)"
| "match_route (Int_param # ps) p =
     (let ds = takeWhile is_digit p
      in if ds = [] then None
         else case match_route ps (dropWhile is_digit p) of
                None \<Rightarrow> None
              | Some xs \<Rightarrow> Some (digits_val ds # xs))"

text \<open>\<^verbatim>\<open>urlpatterns\<close> of \<^verbatim>\<open>urls.py\<close>, in order: the route, the view it calls with
  the captured \<^verbatim>\<open>id\<close>, and the name.\<close>

type_synonym url_pattern = "part list \<times> (nat list \<Rightarrow> route) \<times> pystr"

definition urlpatterns :: "url_pattern list" where
  "urlpatterns =
     [([Lit (py_str ''genres/'')], \<lambda>a. Genre_list, py_str ''genre_list''),
      ([Lit (py_str ''genres/''), Int_param, Lit (py_str ''/'')], \<lambda>a. Genre_detail (hd a),
         py_str ''genre_detail''),
      ([Lit (py_str ''movies/'')], \<lambda>a. Movie_list, py_str ''movie_list''),
      ([Lit (py_str ''movies/''), Int_param, Lit (py_str ''/'')], \<lambda>a. Movie_detail (hd a),
         py_str ''movie_detail''),
      ([Lit (py_str ''movies/''), Int_param, Lit (py_str ''/reviews/'')], \<lambda>a. Review_create (hd a),
         py_str ''review_create''),
      ([Lit (py_str ''reviews/''), Int_param, Lit (py_str ''/'')], \<lambda>a. Review_detail (hd a),
         py_str ''review_detail'')]"

text \<open>\<^verbatim>\<open>URLResolver.resolve\<close>: the first pattern that matches wins; no match is a
  \<^verbatim>\<open>Resolver404\<close>, modelled as \<open>None\<close>.\<close>

fun resolve_in :: "url_pattern list \<Rightarrow> pystr \<Rightarrow> route option" where
  "resolve_in [] p = None"
| "resolve_in ((pat, v, n) # ups) p =
     (case match_route pat p of
        Some args \<Rightarrow> Some (v args)
      | None \<Rightarrow> resolve_in ups p)"

definition resolve :: "pystr \<Rightarrow> route option" where
  "resolve p = resolve_in urlpatterns p"

section \<open>Reading a path by segments\<close>

text \<open>A reference reading of the same six routes: the path split at each \<^verbatim>\<open>/\<close>
  (code point 47), as \<^verbatim>\<open>str.split('/')\<close> does, a known first segment, a key segment
  of ASCII digits, and an empty last segment for the trailing slash.\<close>

fun split_slash :: "pystr \<Rightarrow> pystr list" where
  "split_slash [] = [[]]"
| "split_slash (c # cs) =
     (case split_slash cs of
        [] \<Rightarrow> [[c]]
      | s # ss \<Rightarrow> if c = 47 then [] # s # ss else (c # s) # ss)"

fun join_slash :: "pystr list \<Rightarrow> pystr" where
  "join_slash [] = []"
| "join_slash [s] = s"
| "join_slash (s # ss) = s @ 47 # join_slash ss"

definition int_segment :: "pystr \<Rightarrow> nat option" where
  "int_segment s = (if s \<noteq> [] \<and> list_all is_digit s then Some (digits_val s) else None)"

fun resolve_segments :: "pystr list \<Rightarrow> route option" where
  "resolve_segments [a, []] =
     (if a = py_str ''genres'' then Some Genre_list
      else if a = py_str ''movies'' then Some Movie_list
      else None)"
| "resolve_segments [a, n, []] =
     (case int_segment n of
        None \<Rightarrow> None
      | Some i \<Rightarrow>
          if a = py_str ''genres'' then Some (Genre_detail i)
          else if a = py_str ''movies'' then Some (Movie_detail i)
          else if a = py_str ''reviews'' then Some (Review_detail i)
          else None)"
| "resolve_segments [a, n, b, []] =
     (case int_segment n of
        None \<Rightarrow> None
      | Some i \<Rightarrow>
          if a = py_str ''movies'' \<and> b = py_str ''reviews'' then Some (Review_create i) else None)"
| "resolve_segments ss = None"

section \<open>Reversing a route\<close>

text \<open>\<^verbatim>\<open>reverse('movies:<name>', args=[i])\<close>: the converter renders the key with
  \<^verbatim>\<open>str\<close>.\<close>

fun reverse :: "route \<Rightarrow> pystr" where
  "reverse Genre_list = py_str ''genres/''"
| "reverse (Genre_detail i) = py_str ''genres/'' @ nat_digits i @ [47]"
| "reverse Movie_list = py_str ''movies/''"
| "reverse (Movie_detail i) = py_str ''movies/'' @ nat_digits i @ [47]"
| "reverse (Review_create i) = py_str ''movies/'' @ nat_digits i @ py_str ''/reviews/''"
| "reverse (Review_detail i) = py_str ''reviews/'' @ nat_digits i @ [47]"

section \<open>Binding routes to views\<close>

text \<open>Each route calls its view behind the method list of its \<^verbatim>\<open>@api_view\<close>
  decorator (\<^verbatim>\<open>views.py\<close> lines 8, 14, 20, 26, 32 and 41).\<close>

fun allowed_methods :: "route \<Rightarrow> http_method list" where
  "allowed_methods Genre_list = [GET]"
| "allowed_methods (Genre_detail i) = [GET]"
| "allowed_methods Movie_list = [GET]"
| "allowed_methods (Movie_detail i) = [GET]"
| "allowed_methods (Review_create i) = [POST]"
| "allowed_methods (Review_detail i) = [GET, PUT, DELETE]"

fun view :: "route \<Rightarrow> http_method \<Rightarrow> json \<Rightarrow> db \<Rightarrow> db \<times> response" where
  "view Genre_list m data d = (d, Inr (genre_list d))"
| "view (Genre_detail i) m data d = (d, genre_detail d i)"
| "view Movie_list m data d = (d, Inr (movie_list d))"
| "view (Movie_detail i) m data d = (d, movie_detail d i)"
| "view (Review_create i) m data d = review_create d data i"
| "view (Review_detail i) m data d = review_detail d m data i"

definition dispatch :: "route \<Rightarrow> http_method \<Rightarrow> json \<Rightarrow> db \<Rightarrow> db \<times> response" where
  "dispatch r m data d = api_view (allowed_methods r) m (view r m data) d"

section \<open>The matcher on slash-separated text\<close>

lemma url_literals:
  "py_str ''genres/'' = py_str ''genres'' @ [47]"
  "py_str ''movies/'' = py_str ''movies'' @ [47]"
  "py_str ''reviews/'' = py_str ''reviews'' @ [47]"
  "py_str ''/'' = [47]"
  "py_str ''/reviews/'' = 47 # py_str ''reviews'' @ [47]"
  by (simp_all add: py_str_simps)

lemma url_words_no_slash:
  "47 \<notin> set (py_str ''genres'')" "47 \<notin> set (py_str ''movies'')" "47 \<notin> set (py_str ''reviews'')"
  by (simp_all add: py_str_simps)

lemma take_slash:
  "47 \<notin> set a \<Longrightarrow> 47 \<notin> set b \<Longrightarrow> take (Suc (length a)) (b @ 47 # r) = a @ [47] \<longleftrightarrow> b = a"
proof (induction a arbitrary: b)
  case Nil
  then show ?case by (cases b) auto
next
  case (Cons x a)
  then show ?case by (cases b) auto
qed

text \<open>A literal ending in \<^verbatim>\<open>/\<close> consumes exactly one segment and its slash.\<close>

lemma match_lit_segment:
  assumes "47 \<notin> set a" and "47 \<notin> set b"
  shows "match_route (Lit (a @ [47]) # ps) (b @ 47 # r) = (if b = a then match_route ps r else None)"
proof (cases "b = a")
  case True
  then show ?thesis by simp
next
  case False
  then have "take (Suc (length a)) (b @ 47 # r) \<noteq> a @ [47]"
    using take_slash[OF assms] by simp
  with False show ?thesis by (simp del: take_append)
qed

lemma match_lit_no_slash:
  "47 \<notin> set b \<Longrightarrow> match_route (Lit (a @ [47]) # ps) b = None"
  using set_take_subset[of "Suc (length a)" b] by force

lemma match_lit_Nil: "match_route (Lit [] # ps) r = match_route ps r"
  by simp

text \<open>A parameter followed by a slash reads exactly one segment, which must be a
  non-empty run of digits.\<close>

lemma match_int_segment:
  assumes "47 \<notin> set n"
  shows "match_route (Int_param # Lit (47 # l) # ps) (n @ 47 # r) =
    (case int_segment n of
       None \<Rightarrow> None
     | Some i \<Rightarrow> map_option (Cons i) (match_route (Lit l # ps) r))"
proof (cases "list_all is_digit n")
  case True
  then have "takeWhile is_digit (n @ 47 # r) = n" "dropWhile is_digit (n @ 47 # r) = 47 # r"
    by (simp_all add: takeWhile_append2 dropWhile_append2 list_all_iff is_digit_def)
  with True show ?thesis
    by (simp add: int_segment_def split: option.split)
next
  case False
  then obtain c where c: "c \<in> set n" "\<not> is_digit c" by (auto simp: list_all_iff)
  then have "dropWhile is_digit (n @ 47 # r) = dropWhile is_digit n @ 47 # r"
    by (simp add: dropWhile_append1)
  moreover obtain c' rest where "dropWhile is_digit n = c' # rest" "c' \<in> set n"
    using c by (metis dropWhile_eq_Nil_conv list.set_intros(1) neq_Nil_conv set_dropWhileD)
  ultimately have dw: "dropWhile is_digit (n @ 47 # r) = c' # rest @ 47 # r" and "c' \<noteq> 47"
    using assms by auto
  with False show ?thesis
    by (simp add: int_segment_def Let_def split: option.split)
qed

lemma match_int_no_slash:
  "47 \<notin> set n \<Longrightarrow> match_route (Int_param # Lit (47 # l) # ps) n = None"
  using set_take_subset[of "Suc (length l)" "dropWhile is_digit n"]
  by (force simp: Let_def dest: set_dropWhileD split: option.split)

lemmas match_route_segments =
  match_lit_segment match_lit_no_slash match_lit_Nil match_int_segment match_int_no_slash

section \<open>Resolution by patterns and by segments\<close>

lemma join_slash_Cons: "join_slash (s # ss) = (if ss = [] then s else s @ 47 # join_slash ss)"
  by (cases ss) auto

lemma split_slash_ne: "split_slash p \<noteq> []"
  by (induction p) (auto split: list.splits)

lemma join_split_slash: "join_slash (split_slash p) = p"
proof (induction p)
  case Nil
  then show ?case by simp
next
  case (Cons c cs)
  then show ?case
    using split_slash_ne[of cs] by (auto simp: join_slash_Cons split: list.splits)
qed

lemma split_slash_no_slash: "s \<in> set (split_slash p) \<Longrightarrow> 47 \<notin> set s"
proof (induction p arbitrary: s)
  case Nil
  then show ?case by simp
next
  case (Cons c cs)
  then show ?case using split_slash_ne[of cs] by (auto split: list.splits if_splits)
qed

lemma list_spine_cases:
  obtains "ss = []" | a where "ss = [a]" | a b where "ss = [a, b]" | a b c where "ss = [a, b, c]"
    | a b c e where "ss = [a, b, c, e]" | a b c e f rest where "ss = a # b # c # e # f # rest"
  by (metis list.exhaust)

lemmas url_match_simps = urlpatterns_def url_literals url_words_no_slash match_route_segments

lemma resolve_in_join:
  assumes "ss \<noteq> []" and "\<forall>s\<in>set ss. 47 \<notin> set s"
  shows "resolve_in urlpatterns (join_slash ss) = resolve_segments ss"
  using assms
proof (cases ss rule: list_spine_cases)
  case (3 a b)
  then show ?thesis using assms
    by (cases b) (simp_all add: url_match_simps split: option.split del: match_route.simps(2,3))
next
  case (4 a n b)
  then show ?thesis using assms
    by (cases b) (simp_all add: url_match_simps split: option.split del: match_route.simps(2,3))
next
  case (5 a n b c)
  then show ?thesis using assms
    by (cases c) (simp_all add: url_match_simps split: option.split del: match_route.simps(2,3))
qed (simp_all add: url_match_simps split: option.split del: match_route.simps(2,3))


lemma nat_digits_no_slash: "47 \<notin> set (nat_digits i)"
  using nat_digits_range[of 47 i] by auto

lemma int_segment_nat_digits: "int_segment (nat_digits i) = Some i"
  by (simp add: int_segment_def nat_digits_ne nat_digits_digits digits_val_nat_digits)

lemma resolve_reverse: "resolve (reverse r) = Some r"
  by (cases r) (simp_all add: resolve_def url_match_simps nat_digits_no_slash int_segment_nat_digits
      del: match_route.simps(2,3))

section \<open>Effects of a dispatched request\<close>

lemma wf_dispatch [wf_intros]: "wf_db d \<Longrightarrow> wf_db (fst (dispatch r m b d))"
  by (cases r) (auto simp: dispatch_def api_view_def intro: wf_intros)

lemma asc_dispatch [asc_intros]:
  "wf_db d \<Longrightarrow> db_ascending d \<Longrightarrow> db_ascending (fst (dispatch r m b d))"
  by (cases r) (auto simp: dispatch_def api_view_def intro: asc_intros)

lemma dispatch_Inl: "dispatch r m b d = (d', Inl e) \<Longrightarrow> d' = d"
  by (cases r) (auto simp: dispatch_def api_view_def dest: review_create_Inl review_detail_Inl
      split: if_splits)

lemma dispatch_GET: "fst (dispatch r GET b d) = d"
  by (cases r) (simp_all add: dispatch_def api_view_def review_detail_GET_db)

lemma store_op_dispatch:
  "wf_db d \<Longrightarrow> store_op (review_map d) (review_map (fst (dispatch r m b d)))"
  by (cases r) (simp_all add: dispatch_def api_view_def store_op.keep store_op_review_create
      store_op_review_detail)

lemma dispatch_keeps_catalogue:
  "genre_tbl (fst (dispatch r m b d)) = genre_tbl d \<and> movie_tbl (fst (dispatch r m b d)) = movie_tbl d"
  by (cases r) (simp_all add: dispatch_def api_view_def review_views_keep_catalogue)

lemma keys_grow_dispatch: "keys_grow d (fst (dispatch r m b d))"
  by (cases r) (simp_all add: dispatch_def api_view_def keys_grow_review_create keys_grow_review_detail)

section \<open>No two patterns overlap\<close>

lemma patterns_disjoint_join:
  assumes "ss \<noteq> []" and "\<forall>s\<in>set ss. 47 \<notin> set s"
  shows "length (filter (\<lambda>(pat, v, n). match_route pat (join_slash ss) \<noteq> None) urlpatterns) \<le> 1"
  using assms
proof (cases ss rule: list_spine_cases)
  case (3 a b)
  then show ?thesis using assms
    by (cases b) (simp_all add: url_match_simps split: option.split del: match_route.simps(2,3))
next
  case (4 a n b)
  then show ?thesis using assms
    by (cases b) (simp_all add: url_match_simps split: option.split del: match_route.simps(2,3))
next
  case (5 a n b c)
  then show ?thesis using assms
    by (cases c) (simp_all add: url_match_simps split: option.split del: match_route.simps(2,3))
qed (simp_all add: url_match_simps split: option.split del: match_route.simps(2,3))

section \<open>Keys with leading zeros\<close>

lemma digits_val_leading_zeros: "digits_val (replicate k 48 @ ds) = digits_val ds"
proof -
  have "foldl (\<lambda>acc c. 10 * acc + (c - 48)) 0 (replicate k (48::nat)) = 0"
    by (induction k) simp_all
  then show ?thesis by (simp add: digits_val_def is_digit_def)
qed

section \<open>Properties of the router\<close>

text \<open>C21: Django's resolution, trying the patterns of \<^verbatim>\<open>urlpatterns\<close> in order
  with the \<^verbatim>\<open>int\<close> converter, resolves every path exactly as the segment reading
  does: split at \<^verbatim>\<open>/\<close>, a known first segment, a non-empty ASCII-digit key, and an
  empty last segment.\<close>

theorem resolve_by_segments: "resolve p = resolve_segments (split_slash p)"
  using resolve_in_join[of "split_slash p"] split_slash_ne[of p] split_slash_no_slash[of _ p]
  by (simp add: resolve_def join_split_slash)

text \<open>C22: no path matches two patterns of \<^verbatim>\<open>urlpatterns\<close>, so the order of the
  list does not decide which view answers.\<close>

theorem urlpatterns_unambiguous:
  "length (filter (\<lambda>(pat, v, n). match_route pat p \<noteq> None) urlpatterns) \<le> 1"
  using patterns_disjoint_join[of "split_slash p"] split_slash_ne[of p] split_slash_no_slash[of _ p]
  by (simp add: join_split_slash)

text \<open>C31: the \<^verbatim>\<open><int:id>\<close> converter reads any non-empty run of ASCII digits,
  leading zeros included, so \<^verbatim>\<open>genres/007/\<close> is the detail of genre 7; an empty key,
  as in \<^verbatim>\<open>genres//\<close>, matches no pattern.\<close>

theorem int_key_leading_zeros:
  "resolve (py_str ''genres/'' @ replicate k 48 @ nat_digits i @ [47]) = Some (Genre_detail i) \<and>
   resolve (py_str ''genres//'') = None"
proof
  define n where "n = replicate k 48 @ nat_digits i"
  have p: "py_str ''genres/'' @ replicate k 48 @ nat_digits i @ [47] = join_slash [py_str ''genres'', n, []]"
    by (simp add: n_def url_literals)
  have ns: "47 \<notin> set n" using nat_digits_no_slash[of i] by (auto simp: n_def)
  have "list_all is_digit n" using nat_digits_digits[of i] by (auto simp: n_def is_digit_def list_all_iff set_replicate_conv_if)
  then have seg: "int_segment n = Some i"
    using nat_digits_ne[of i]
    by (simp add: int_segment_def n_def digits_val_leading_zeros digits_val_nat_digits)
  show "resolve (py_str ''genres/'' @ replicate k 48 @ nat_digits i @ [47]) = Some (Genre_detail i)"
    unfolding resolve_def p
    using resolve_in_join[of "[py_str ''genres'', n, []]"] ns seg url_words_no_slash by simp
  show "resolve (py_str ''genres//'') = None"
    by (simp add: resolve_def urlpatterns_def py_str_simps Let_def)
qed

end
