(* ===== verification/Api.thy ===== *)
theory Api
  imports Urls
begin

text \<open>
  The API as a whole: a request (method, path, JSON body), \<open>handle\<close> which resolves
  the path with the router of \<open>Urls\<close> and dispatches to the bound view, \<open>serve\<close> for
  requests served one after the other, the step relation \<open>reachable\<close> of the
  databases the running system can be in, a sample catalogue for concrete instances,
  and the lemmas that carry a request through resolution and dispatch, with the
  locality of a request on one review.
\<close>

section \<open>Requests\<close>

record request =
  req_method :: http_method
  path :: pystr
  body :: json

text \<open>One request: the router resolves the path (an unknown path is a 404 before any
  view runs), then the bound view handles it.\<close>

definition handle :: "db \<Rightarrow> request \<Rightarrow> db \<times> response" where
  "handle d rq =
     (case resolve (path rq) of
        None \<Rightarrow> (d, Inl Http404)
      | Some r \<Rightarrow> dispatch r (req_method rq) (body rq) d)"

text \<open>A sequence of requests served one after the other.\<close>

fun serve :: "db \<Rightarrow> request list \<Rightarrow> db \<times> response list" where
  "serve d [] = (d, [])"
| "serve d (rq # rqs) =
     (let (d1, resp) = handle d rq; (d2, resps) = serve d1 rqs in (d2, resp # resps))"

text \<open>The databases the running system can be in: it starts empty; a step is a
  request served by the API, or one of the storage operations the API does not
  expose but the data model provides (creating and deleting genres and movies, as
  fixtures and the admin site do). Reviews are written only through the API.\<close>

inductive reachable :: "db \<Rightarrow> bool" where
  init: "reachable empty_db"
| request: "reachable d \<Longrightarrow> reachable (fst (handle d rq))"
| add_genre: "reachable d \<Longrightarrow> reachable (snd (genre_create d g))"
| add_movie: "reachable d \<Longrightarrow> movie_create d m = Inr (i, d') \<Longrightarrow> reachable d'"
| drop_genre: "reachable d \<Longrightarrow> reachable (genre_delete d gk)"
| drop_movie: "reachable d \<Longrightarrow> reachable (movie_delete d mv)"

text \<open>A small catalogue used by the witnesses: two genres, three movies (the first
  and third of genre 1), one review of movie 3.\<close>

definition sample_db :: db where
  "sample_db =
     \<lparr>genre_tbl = [(1, \<lparr>name = py_str ''drama''\<rparr>), (2, \<lparr>name = py_str ''comedy''\<rparr>)],
      movie_tbl =
        [(1, \<lparr>title = py_str ''a'', audience = 10, poster_url = [], description = [], genre_id = 1\<rparr>),
         (2, \<lparr>title = py_str ''b'', audience = 20, poster_url = [], description = [], genre_id = 2\<rparr>),
         (3, \<lparr>title = py_str ''c'', audience = 30, poster_url = [], description = [], genre_id = 1\<rparr>)],
      review_tbl = [(1, \<lparr>content = py_str ''ok'', score = 3, movie_id = 3\<rparr>)],
      genre_seq = 2, movie_seq = 3, review_seq = 1\<rparr>"

section \<open>Routing lemmas\<close>

lemma handle_reverse:
  "handle d \<lparr>req_method = m, path = reverse r, body = b\<rparr> = dispatch r m b d"
  by (simp add: handle_def resolve_reverse)

lemma dispatch_allowed:
  "m \<in> set (allowed_methods r) \<Longrightarrow> dispatch r m b d = view r m b d"
  by (simp add: dispatch_def api_view_def)

lemma serve_two:
  "serve d [rq1, rq2] =
     (let (d1, r1) = handle d rq1; (d2, r2) = handle d1 rq2 in (d2, [r1, r2]))"
  by (simp add: split_def Let_def)

text \<open>The body of a review payload \<^verbatim>\<open>{"content": c, "score": s}\<close> is the
  review shape of a review with that content and score.\<close>

lemma review_payload_validates:
  "clean_text 100 c \<Longrightarrow>
   review_validate (JObj [(py_str ''content'', JStr c), (py_str ''score'', JInt s)]) = Inr (c, s)"
  using review_validate_serializer[of "\<lparr>content = c, score = s, movie_id = 0\<rparr>"]
  by (simp add: review_serializer_def)

lemma wf_handle [wf_intros]: "wf_db d \<Longrightarrow> wf_db (fst (handle d rq))"
  by (simp add: handle_def wf_dispatch split: option.splits)

lemma serve_Cons_fst: "fst (serve d (rq # rqs)) = fst (serve (fst (handle d rq)) rqs)"
  by (simp add: split_def Let_def)

lemma reviews_clean_view: "reviews_clean d \<Longrightarrow> reviews_clean (fst (view r m b d))"
  by (cases r) (simp_all add: reviews_clean_review_create reviews_clean_review_detail)

lemma reviews_clean_handle: "reviews_clean d \<Longrightarrow> reviews_clean (fst (handle d rq))"
  by (simp add: handle_def dispatch_def api_view_def reviews_clean_view split: option.splits)

lemma reviews_clean_storage:
  assumes "reviews_clean d"
  shows "reviews_clean (snd (genre_create d g))"
    and "movie_create d m = Inr (i, d') \<Longrightarrow> reviews_clean d'"
    and "reviews_clean (genre_delete d gk)"
    and "reviews_clean (movie_delete d mv)"
  using assms
  by (auto simp: reviews_clean_def genre_create_def movie_create_def genre_delete_def
      movie_delete_def Let_def split: if_splits)

lemma keys_grow_handle: "keys_grow d (fst (handle d rq))"
  by (simp add: handle_def keys_grow_dispatch split: option.splits)

lemma keys_grow_serve: "keys_grow d (fst (serve d rqs))"
proof (induction rqs arbitrary: d)
  case Nil
  then show ?case by simp
next
  case (Cons rq rqs)
  then show ?case
    by (simp only: serve_Cons_fst) (rule keys_grow_trans[OF keys_grow_handle])
qed

lemma asc_handle [asc_intros]:
  "wf_db d \<Longrightarrow> db_ascending d \<Longrightarrow> db_ascending (fst (handle d rq))"
  by (simp add: handle_def asc_dispatch split: option.splits)

lemma reachable_wf: "reachable d \<Longrightarrow> wf_db d"
proof (induction rule: reachable.induct)
  case (add_genre d g)
  then show ?case using wf_genre_create by (metis prod.collapse)
qed (auto intro: wf_intros wf_empty_db)

section \<open>Requests on one review\<close>

text \<open>A request to \<^verbatim>\<open>reviews/<i>/\<close> writes at most the row \<open>i\<close>, and what it writes
  and answers depends only on that row: a method outside the decorator's list is
  answered 405 with no write, the others run \<open>review_detail\<close>.\<close>

lemma dispatch_review_detail_local:
  "\<exists>E resp. row_write i E \<and>
     (\<forall>d'. map_of (review_tbl d') i = map_of (review_tbl d) i \<longrightarrow>
        dispatch (Review_detail i) m b d' = (d'\<lparr>review_tbl := E (review_tbl d')\<rparr>, resp))"
proof (cases "m \<in> set (allowed_methods (Review_detail i))")
  case True
  obtain E resp where "row_write i E" and
    "\<forall>d'. map_of (review_tbl d') i = map_of (review_tbl d) i \<longrightarrow>
        review_detail d' m b i = (d'\<lparr>review_tbl := E (review_tbl d')\<rparr>, resp)"
    using review_detail_local by blast
  with True show ?thesis by (auto simp: dispatch_allowed)
next
  case False
  then show ?thesis
    by (intro exI[of _ id] exI[of _ "Inl (MethodNotAllowed m)"])
      (simp add: dispatch_def api_view_def row_write_def)
qed

lemma handle_review_detail_local:
  "\<exists>E resp. row_write i E \<and>
     (\<forall>d'. map_of (review_tbl d') i = map_of (review_tbl d) i \<longrightarrow>
        handle d' \<lparr>req_method = m, path = reverse (Review_detail i), body = b\<rparr> =
          (d'\<lparr>review_tbl := E (review_tbl d')\<rparr>, resp))"
  unfolding handle_reverse by (rule dispatch_review_detail_local)

lemma wf_sample_db: "wf_db sample_db"
  by (simp add: wf_db_def wf_table_def sample_db_def)

lemma clean_nice: "clean_text 100 (py_str ''nice'')"
  by (simp add: clean_text_def py_strip_def py_isspace_def py_str_simps)

end
