(* ===== verification/Cascade.thy ===== *)
theory Cascade
  imports Models
begin

text \<open>
  The deletion collector behind \<^verbatim>\<open>instance.delete()\<close>, built from the foreign keys
  that \<^verbatim>\<open>src/movies/models.py\<close> declares with \<^verbatim>\<open>on_delete=models.CASCADE\<close>
  (lines 13 and 19). Django's \<^verbatim>\<open>Collector.collect\<close> starts from the rows to delete,
  looks up for each relation that cascades the rows whose foreign key points into
  the batch, and collects them recursively; \<^verbatim>\<open>Collector.delete\<close> then deletes every
  collected batch. The recursion follows the relations from a model to the models
  that refer to it, which here form the chain genre, movie, review; it stops because
  each step goes one model down the chain (the termination proof of \<open>collect\<close>).
  The lemma \<open>collector_matches_cascades\<close> shows that on a well-formed database it
  deletes exactly what the cascades of \<open>Models\<close> delete, so that those follow the
  declared relations.
\<close>

section \<open>Models and their cascading relations\<close>

datatype model_kind = Genre_kind | Movie_kind | Review_kind

text \<open>The relations whose \<^verbatim>\<open>on_delete\<close> is \<^verbatim>\<open>CASCADE\<close>, from the model referred to:
  \<^verbatim>\<open>Movie.genre\<close> (line 13) and \<^verbatim>\<open>Review.movie\<close> (line 19).\<close>

fun cascade_children :: "model_kind \<Rightarrow> model_kind list" where
  "cascade_children Genre_kind = [Movie_kind]"
| "cascade_children Movie_kind = [Review_kind]"
| "cascade_children Review_kind = []"

text \<open>\<^verbatim>\<open>related_objects\<close>: the keys of the rows of a model whose foreign key is in a
  batch of parent keys (\<^verbatim>\<open>Movie.objects.filter(genre__in=batch)\<close>,
  \<^verbatim>\<open>Review.objects.filter(movie__in=batch)\<close>), in storage order.\<close>

fun related_keys :: "model_kind \<Rightarrow> db \<Rightarrow> nat list \<Rightarrow> nat list" where
  "related_keys Genre_kind d ks = []"
| "related_keys Movie_kind d ks = map fst (filter (\<lambda>(k, m). genre_id m \<in> set ks) (movie_tbl d))"
| "related_keys Review_kind d ks = map fst (filter (\<lambda>(k, r). movie_id r \<in> set ks) (review_tbl d))"

text \<open>The position of a model in the chain of cascades, counted from its end.\<close>

fun model_rank :: "model_kind \<Rightarrow> nat" where
  "model_rank Genre_kind = 2"
| "model_rank Movie_kind = 1"
| "model_rank Review_kind = 0"

lemma cascade_children_rank: "c \<in> set (cascade_children m) \<Longrightarrow> model_rank c < model_rank m"
  by (cases m) auto

section \<open>Collecting and deleting\<close>

text \<open>\<^verbatim>\<open>Collector.collect\<close>: the batch itself, then for each cascading relation the
  batches collected from the related rows. The result is the list of
  \<open>(model, keys)\<close> batches to delete, read from the database before anything is
  deleted.\<close>

function (domintros) collect :: "model_kind \<Rightarrow> nat list \<Rightarrow> db \<Rightarrow> (model_kind \<times> nat list) list" where
  "collect m ks d = (m, ks) # concat (map (\<lambda>c. collect c (related_keys c d ks) d) (cascade_children m))"
  by pat_completeness auto
termination
  by (relation "measure (\<lambda>(m, ks, d). model_rank m)") (auto dest: cascade_children_rank)

declare collect.simps [simp del]

text \<open>The deletion of one batch: the rows of the model whose key is in it.\<close>

fun delete_rows :: "model_kind \<Rightarrow> nat list \<Rightarrow> db \<Rightarrow> db" where
  "delete_rows Genre_kind ks d = d\<lparr>genre_tbl := filter (\<lambda>(k, g). k \<notin> set ks) (genre_tbl d)\<rparr>"
| "delete_rows Movie_kind ks d = d\<lparr>movie_tbl := filter (\<lambda>(k, m). k \<notin> set ks) (movie_tbl d)\<rparr>"
| "delete_rows Review_kind ks d = d\<lparr>review_tbl := filter (\<lambda>(k, r). k \<notin> set ks) (review_tbl d)\<rparr>"

text \<open>\<^verbatim>\<open>Collector.delete\<close>: every collected batch deleted.\<close>

definition collector_delete :: "model_kind \<Rightarrow> nat list \<Rightarrow> db \<Rightarrow> db" where
  "collector_delete m ks d = fold (\<lambda>(m', ks'). delete_rows m' ks') (collect m ks d) d"

section \<open>The collector on each model\<close>

lemma collect_Review: "collect Review_kind ks d = [(Review_kind, ks)]"
  by (simp add: collect.simps [of Review_kind])

lemma collect_Movie:
  "collect Movie_kind ks d = [(Movie_kind, ks), (Review_kind, related_keys Review_kind d ks)]"
  by (simp add: collect.simps [of Movie_kind] collect_Review)

lemma collect_Genre:
  "collect Genre_kind ks d =
     [(Genre_kind, ks), (Movie_kind, related_keys Movie_kind d ks),
      (Review_kind, related_keys Review_kind d (related_keys Movie_kind d ks))]"
  by (simp add: collect.simps [of Genre_kind] collect_Movie)

lemmas collect_kinds = collect_Review collect_Movie collect_Genre

text \<open>A review batch selected by foreign key is the set of reviews that point into
  the parent batch, when review keys are unique.\<close>

lemma filter_related_reviews:
  assumes "distinct (map fst (review_tbl d))"
  shows "filter (\<lambda>(k, r). k \<notin> set (related_keys Review_kind d ks)) (review_tbl d) =
    filter (\<lambda>(k, r). movie_id r \<notin> set ks) (review_tbl d)"
proof (rule filter_cong[OF refl])
  fix x assume x_in: "x \<in> set (review_tbl d)"
  obtain k r where "x = (k, r)" by fastforce
  with x_in have x: "x = (k, r)" "(k, r) \<in> set (review_tbl d)" by simp_all
  have "k \<in> set (related_keys Review_kind d ks) \<longleftrightarrow> movie_id r \<in> set ks"
    using key_in_filter_iff[OF assms x(2), of "\<lambda>r. movie_id r \<in> set ks"] by (simp only: related_keys.simps)
  with x(1) show "(case x of (k, r) \<Rightarrow> k \<notin> set (related_keys Review_kind d ks)) =
      (case x of (k, r) \<Rightarrow> movie_id r \<notin> set ks)" by simp
qed

lemma filter_related_movies:
  assumes "distinct (map fst (movie_tbl d))"
  shows "filter (\<lambda>(k, m). k \<notin> set (related_keys Movie_kind d ks)) (movie_tbl d) =
    filter (\<lambda>(k, m). genre_id m \<notin> set ks) (movie_tbl d)"
proof (rule filter_cong[OF refl])
  fix x assume x_in: "x \<in> set (movie_tbl d)"
  obtain k m where "x = (k, m)" by fastforce
  with x_in have x: "x = (k, m)" "(k, m) \<in> set (movie_tbl d)" by simp_all
  have "k \<in> set (related_keys Movie_kind d ks) \<longleftrightarrow> genre_id m \<in> set ks"
    using key_in_filter_iff[OF assms x(2), of "\<lambda>m. genre_id m \<in> set ks"] by (simp only: related_keys.simps)
  with x(1) show "(case x of (k, m) \<Rightarrow> k \<notin> set (related_keys Movie_kind d ks)) =
      (case x of (k, m) \<Rightarrow> genre_id m \<notin> set ks)" by simp
qed

lemma related_movies_movie_set: "related_keys Movie_kind d [g] = map fst (movie_set d g)"
  by (simp add: movie_set_def)

section \<open>The collector and the hand-written cascades\<close>

text \<open>On a well-formed database, the generic collector started from one genre, one
  movie or one review deletes exactly what the hand-written cascades
  \<open>genre_delete\<close>, \<open>movie_delete\<close> and \<open>review_delete\<close> delete: the deletes of
  \<open>Models\<close> follow the relations declared \<^verbatim>\<open>on_delete=CASCADE\<close>.\<close>

lemma collector_matches_cascades:
  assumes wf: "wf_db d"
  shows "collector_delete Genre_kind [g] d = genre_delete d g \<and>
    collector_delete Movie_kind [i] d = movie_delete d i \<and>
    collector_delete Review_kind [j] d = review_delete d j"
  using filter_related_movies[OF wf_db_distinct(2)[OF wf]]
    filter_related_reviews[OF wf_db_distinct(3)[OF wf]]
  by (simp add: collector_delete_def collect_kinds genre_delete_def movie_delete_def review_delete_def
      related_movies_movie_set [symmetric] Let_def del: related_keys.simps)

end
