(* ===== verification/Spec2Isabelle.thy ===== *)
theory Spec2Isabelle
  imports Api Cascade
begin

text \<open>
  \<^bold>\<open>A verified model of the movie catalogue API of \<^verbatim>\<open>src/movies\<close>.\<close>

  \<^medskip>\<^bold>\<open>The program.\<close> A Django REST framework app with three models
  (\<^verbatim>\<open>models.py\<close>: \<^verbatim>\<open>Genre\<close>, \<^verbatim>\<open>Movie\<close> with a foreign key to its genre,
  \<^verbatim>\<open>Review\<close> with a foreign key to its movie, both \<^verbatim>\<open>on_delete=CASCADE\<close>), four
  serializers (\<^verbatim>\<open>serializers.py\<close>), six function views (\<^verbatim>\<open>views.py\<close>) and the
  \<^verbatim>\<open>urlpatterns\<close> that route paths to them (\<^verbatim>\<open>urls.py\<close>). A request is resolved to
  a view; the view's \<^verbatim>\<open>@api_view\<close> list admits or refuses the method; the view reads
  rows through the ORM, validates a body with \<^verbatim>\<open>ReviewSerializer\<close> and writes
  through \<^verbatim>\<open>save\<close> and \<^verbatim>\<open>delete\<close>; the answer is a serialized body or an error.

  \<^medskip>\<^bold>\<open>The theories.\<close>
  \<^item> \<open>Prelude\<close>: Python strings as lists of code points (\<open>pystr\<close>), CPython's
    \<^verbatim>\<open>str.isspace\<close>, the JSON values of request and response bodies (\<open>json\<close>,
    with \<open>dict_get\<close> reading a key the way \<^verbatim>\<open>json.loads\<close> does, the last
    occurrence of a repeated key winning), tables as association lists, and the collections
    \<open>db_simps\<close>, \<open>wf_intros\<close> and \<open>asc_intros\<close>.
  \<^item> \<open>Models\<close> (\<^verbatim>\<open>models.py\<close> and the ORM calls of \<^verbatim>\<open>views.py\<close>): the rows as
    records \<open>genre\<close>, \<open>movie\<close>, \<open>review\<close>; the database \<open>db\<close> as three tables in
    storage order with the AUTOINCREMENT counters \<open>*_seq\<close>; \<open>objects_get\<close>,
    \<open>movie_set\<close>, the creates (a foreign key with no parent row is an
    \<open>IntegrityError\<close> and stores nothing), \<open>review_save\<close> (UPDATE by key, else INSERT),
    the cascading deletes; the invariant \<open>wf_db\<close> (unique keys not above their
    counter, every foreign key present) and its preservation by every write; the
    key order \<open>db_ascending\<close> (keys strictly increasing in storage order) and its
    preservation; \<open>row_write\<close>, the writes confined to one row, and their
    commutation on different rows; the abstraction \<open>review_map\<close>.
  \<^item> \<open>Drf_Fields\<close>: DRF's \<^verbatim>\<open>CharField(max_length=100)\<close> (\<open>char_field\<close>: strip, then
    blank, \<^verbatim>\<open>max_length\<close> and NUL checks) and \<^verbatim>\<open>IntegerField\<close> (\<open>integer_field\<close>:
    \<^verbatim>\<open>int(re_decimal.sub('', str(x)))\<close>, strings over 1000 characters refused),
    with \<^verbatim>\<open>str(int)\<close> and \<^verbatim>\<open>int(str)\<close> on code points and their round trip.
  \<^item> \<open>Serializers\<close>: the output shapes in \<^verbatim>\<open>Meta.fields\<close> order, the nested
    \<^verbatim>\<open>movie_set\<close> of \<^verbatim>\<open>GenreDetailSerializer\<close>, \<open>review_validate\<close> for
    \<^verbatim>\<open>ReviewSerializer.is_valid\<close> (every failing field reported), and \<^verbatim>\<open>create\<close> /
    \<^verbatim>\<open>update\<close> of the validated data.
  \<^item> \<open>Views\<close>: \<open>genre_list\<close>, \<open>genre_detail\<close>, \<open>movie_list\<close>, \<open>movie_detail\<close>,
    \<open>review_create\<close>, \<open>review_detail\<close> as functions from the database and the request
    data to the new database and a response of type \<open>error + json\<close>;
    \<open>get_object_or_404\<close> and \<open>api_view\<close>; \<open>status\<close> maps an outcome to its code
    (200, 400, 404, 405, 500); \<open>review_detail_local\<close>: the detail view's write and
    answer depend only on the row it is asked for, and its write is a \<open>row_write\<close>.
  \<^item> \<open>Urls\<close>: \<open>urlpatterns\<close> as Django's ordered list of \<^verbatim>\<open>path()\<close> entries made of
    literals and \<^verbatim>\<open><int:id>\<close> parameters, \<open>match_route\<close> and the first-match
    \<open>resolve\<close>, \<open>reverse\<close>, and \<open>dispatch\<close> binding a route to its view behind its
    method list. A reference reading by segments (\<open>split_slash\<close>,
    \<open>resolve_segments\<close>) is not code; it is the specification the resolver is
    proved equal to.
  \<^item> \<open>Cascade\<close>: the deletion collector behind \<^verbatim>\<open>instance.delete()\<close>, driven by the
    relations declared \<^verbatim>\<open>on_delete=CASCADE\<close> (\<open>cascade_children\<close>, \<open>related_keys\<close>):
    \<open>collect\<close> gathers the batches to delete recursively along the relations,
    \<open>collector_delete\<close> deletes them; the lemma \<open>collector_matches_cascades\<close>
    shows that the cascades of \<open>Models\<close> are what the collector deletes, so that the
    properties about them (C14, C15) are about the declared relations.
  \<^item> \<open>Api\<close>: a request (method, path, body), \<open>handle\<close> (resolve, then dispatch;
    an unknown path is a 404 that changes nothing), \<open>serve\<close> for a sequence of
    requests, the step relation \<open>reachable\<close> (requests plus the genre and movie
    writes the API does not expose), the sample catalogue \<open>sample_db\<close>, and the
    lemmas that carry a request through resolution and dispatch.
  \<^item> This theory: the properties that span the components and the witnesses of those
    stated in the component theories.

  \<^medskip>\<^bold>\<open>The properties\<close> (C1 to C34, in order of importance): the
  functional behaviour of each endpoint on every branch, errors included (C1--C6,
  C12, C26), and of review validation and its fields (C18--C20, C23, C24, C28); the
  exact table of methods each endpoint answers 405, which pins the \<^verbatim>\<open>@api_view\<close>
  lists (C11); the storage invariant under every request sequence and in every
  reachable state, with the stored content always clean (C7, C8); that error answers
  and \<^verbatim>\<open>GET\<close> requests do not write (C9, C10); that review keys are never reused
  (C13) and that consecutive creates take consecutive keys in order (C27); the
  cascades of \<^verbatim>\<open>on_delete=CASCADE\<close> (C14, C15); the refinement of the review table
  by a map, operation by operation (C16) and request by request, where every request
  is one abstract store operation and never touches genres or movies (C25); the round
  trip of validated data through storage (C17); the router's equivalence with the
  segment specification and the absence of overlapping patterns (C21, C22); that from
  every well-formed state the API can delete every review, each request succeeding
  (C29); that keys of a body other than \<^verbatim>\<open>content\<close> and \<^verbatim>\<open>score\<close> never change an
  answer, so a client cannot choose a review's key or movie (C30); how the
  \<^verbatim>\<open><int:id>\<close> converter reads keys with leading zeros or no digit at all (C31);
  that requests to different reviews commute, served in either order, whatever their
  methods and bodies (C32); that in every reachable state the tables are in key
  order, so the list views answer rows sorted by key (C33); and that the only request
  answered 500 is a review posted under a missing movie (C34). Each property with a
  hypothesis has a witness applying it to \<open>sample_db\<close> or a concrete payload.

  \<^medskip>\<^bold>\<open>Choices.\<close> Every definition is executable and total. The iteration of
  the program is over finite tables and strings, modelled by structural recursion,
  filters and folds; the one recursion that is not structural, the collector following
  cascading relations, is a \<^theory_text>\<open>function\<close> whose termination measure is the
  position of the model in the chain genre, movie, review. No fuel is needed.
  Tables are kept in storage order, which is the order the list views answer in: the
  models declare no \<^verbatim>\<open>Meta.ordering\<close>, and the order of an unordered query is the
  database's, taken here to be insertion order; C33 shows that in every reachable
  state this is also primary-key order, the order SQLite returns a rowid table in,
  so the choice does not matter for the states the program reaches (an INSERT under
  an old key, which \<open>review_save\<close> would append out of order, is never reached:
  the detail view saves only a row it has just read). Python's integers are unbounded and so are \<open>int\<close> here; keys and
  counters are \<open>nat\<close>.

  \<^medskip>\<^bold>\<open>Not modelled.\<close> The framework internals (middleware, content
  negotiation, parsing of the raw body into JSON, \<^verbatim>\<open>HEAD\<close> and \<^verbatim>\<open>OPTIONS\<close>, which
  DRF answers itself, and the redirect of a path without its trailing slash that
  Django's \<^verbatim>\<open>APPEND_SLASH\<close> setting may add: here such a path is a 404), transactions and concurrent requests (requests are served one
  after the other), JSON floats (an \<^verbatim>\<open>IntegerField\<close> accepts \<^verbatim>\<open>5.0\<close>) and the
  non-ASCII digits Python's \<^verbatim>\<open>int\<close> accepts, the project's settings and root URLconf
  (not in the repository: paths are relative to the app's include prefix, and the
  database backend, which decides the integer range validators DRF derives from
  \<^verbatim>\<open>IntegerField\<close>, is unknown, so scores are unbounded here; for the same reason a
  key too large for the backend's integer column, which \<^verbatim>\<open><int:id>\<close> accepts, is
  modelled as any other absent key).
\<close>

section \<open>Review requests\<close>

text \<open>The read the properties compose with the writes: a \<^verbatim>\<open>GET\<close> of an existing
  review answers its \<open>{content, score}\<close>.\<close>

lemma handle_get_review:
  "map_of (review_tbl d) i = Some r \<Longrightarrow>
   handle d \<lparr>req_method = GET, path = reverse (Review_detail i), body = b\<rparr> =
     (d, Inr (JObj [(py_str ''content'', JStr (content r)), (py_str ''score'', JInt (score r))]))"
  unfolding handle_reverse by (simp add: dispatch_allowed review_detail_GET review_serializer_def)

section \<open>Properties of the API\<close>

text \<open>C1: for an existing genre, \<^verbatim>\<open>GET /genres/{id}/\<close> answers the genre-detail
  shape whose \<^verbatim>\<open>movies\<close> array is exactly the serialized movies whose \<open>genre_id\<close>
  is that id, in storage order, and changes nothing.\<close>

theorem genre_detail_lists_exactly_its_movies:
  assumes "map_of (genre_tbl d) g = Some gr"
  shows "handle d \<lparr>req_method = GET, path = reverse (Genre_detail g), body = b\<rparr> =
    (d, Inr (JObj [(py_str ''id'', JInt (int g)),
                   (py_str ''movies'',
                      JList (map movie_serializer (filter (\<lambda>(k, m). genre_id m = g) (movie_tbl d)))),
                   (py_str ''name'', JStr (name gr))]))"
  unfolding handle_reverse using assms
  by (simp add: dispatch_allowed genre_detail_def movie_set_def)

theorem genre_detail_lists_exactly_its_movies_witness:
  "map_of (genre_tbl sample_db) 1 = Some \<lparr>name = py_str ''drama''\<rparr> \<and>
   handle sample_db \<lparr>req_method = GET, path = reverse (Genre_detail 1), body = JNull\<rparr> =
    (sample_db, Inr (JObj [(py_str ''id'', JInt 1),
       (py_str ''movies'', JList (map movie_serializer (filter (\<lambda>(k, m). genre_id m = 1) (movie_tbl sample_db)))),
       (py_str ''name'', JStr (py_str ''drama''))]))"
proof -
  have h: "map_of (genre_tbl sample_db) 1 = Some \<lparr>name = py_str ''drama''\<rparr>"
    by (simp add: sample_db_def)
  show ?thesis
    using h genre_detail_lists_exactly_its_movies [OF h, of JNull] by simp
qed

text \<open>C2: every detail endpoint answers 404 for a key with no row, for each method
  its view accepts, and changes nothing.\<close>

theorem missing_detail_is_404:
  "(g \<notin> keys (genre_tbl d) \<longrightarrow>
      handle d \<lparr>req_method = GET, path = reverse (Genre_detail g), body = b\<rparr> = (d, Inl Http404)) \<and>
   (mv \<notin> keys (movie_tbl d) \<longrightarrow>
      handle d \<lparr>req_method = GET, path = reverse (Movie_detail mv), body = b\<rparr> = (d, Inl Http404)) \<and>
   (i \<notin> keys (review_tbl d) \<longrightarrow> m \<in> set (allowed_methods (Review_detail i)) \<longrightarrow>
      handle d \<lparr>req_method = m, path = reverse (Review_detail i), body = b\<rparr> = (d, Inl Http404))"
  unfolding handle_reverse
  by (simp add: dispatch_allowed genre_detail_def movie_detail_def db_simps)

theorem missing_detail_is_404_witness:
  "(5 \<notin> keys (genre_tbl sample_db) \<and>
      handle sample_db \<lparr>req_method = GET, path = reverse (Genre_detail 5), body = JNull\<rparr> = (sample_db, Inl Http404)) \<and>
   (7 \<notin> keys (movie_tbl sample_db) \<and>
      handle sample_db \<lparr>req_method = GET, path = reverse (Movie_detail 7), body = JNull\<rparr> = (sample_db, Inl Http404)) \<and>
   (9 \<notin> keys (review_tbl sample_db) \<and> PUT \<in> set (allowed_methods (Review_detail 9)) \<and>
      handle sample_db \<lparr>req_method = PUT, path = reverse (Review_detail 9), body = JNull\<rparr> = (sample_db, Inl Http404))"
proof -
  have h: "5 \<notin> keys (genre_tbl sample_db)" "7 \<notin> keys (movie_tbl sample_db)"
    "9 \<notin> keys (review_tbl sample_db)" "PUT \<in> set (allowed_methods (Review_detail 9))"
    by (simp_all add: sample_db_def)
  show ?thesis
    using h missing_detail_is_404 [of 5 sample_db JNull 7 9 PUT] by blast
qed

text \<open>C3: creating a review with clean content under an existing movie, then reading
  it under the key the database gives it, answers the confirmation message and then
  exactly the submitted \<open>{content, score}\<close>; the new row is appended under the next
  key and linked to the movie of the path.\<close>

theorem create_then_read_review:
  assumes wf: "wf_db d" and mv: "mv \<in> keys (movie_tbl d)" and c: "clean_text 100 c"
  shows "serve d
      [\<lparr>req_method = POST, path = reverse (Review_create mv),
         body = JObj [(py_str ''content'', JStr c), (py_str ''score'', JInt s)]\<rparr>,
       \<lparr>req_method = GET, path = reverse (Review_detail (Suc (review_seq d))), body = b\<rparr>] =
    (d\<lparr>review_tbl := review_tbl d @ [(Suc (review_seq d), \<lparr>content = c, score = s, movie_id = mv\<rparr>)],
       review_seq := Suc (review_seq d)\<rparr>,
     [Inr (message msg_created),
      Inr (JObj [(py_str ''content'', JStr c), (py_str ''score'', JInt s)])])"
proof -
  let ?r = "\<lparr>content = c, score = s, movie_id = mv\<rparr>"
  let ?k = "Suc (review_seq d)"
  let ?d1 = "d\<lparr>review_tbl := review_tbl d @ [(?k, ?r)], review_seq := ?k\<rparr>"
  have fresh: "?k \<notin> keys (review_tbl d)"
    using wf by (simp add: wf_db_def wf_table_fresh)
  have step1: "handle d \<lparr>req_method = POST, path = reverse (Review_create mv),
      body = JObj [(py_str ''content'', JStr c), (py_str ''score'', JInt s)]\<rparr> =
      (?d1, Inr (message msg_created))"
    unfolding handle_reverse
    by (simp add: dispatch_allowed review_create_def review_create_row_def review_from_validated_def
        review_payload_validates[OF c] mv)
  have "map_of (review_tbl ?d1) ?k = Some ?r"
    using fresh by (simp add: map_add_def)
  from handle_get_review[OF this, of b] have step2:
    "handle ?d1 \<lparr>req_method = GET, path = reverse (Review_detail ?k), body = b\<rparr> =
      (?d1, Inr (JObj [(py_str ''content'', JStr c), (py_str ''score'', JInt s)]))"
    by simp
  show ?thesis
    by (simp only: serve_two step1 step2 Let_def split_conv)
qed

theorem create_then_read_review_witness:
  "wf_db sample_db \<and> 3 \<in> keys (movie_tbl sample_db) \<and> clean_text 100 (py_str ''nice'') \<and>
   serve sample_db
      [\<lparr>req_method = POST, path = reverse (Review_create 3),
         body = JObj [(py_str ''content'', JStr (py_str ''nice'')), (py_str ''score'', JInt 4)]\<rparr>,
       \<lparr>req_method = GET, path = reverse (Review_detail (Suc (review_seq sample_db))), body = JNull\<rparr>] =
    (sample_db\<lparr>review_tbl := review_tbl sample_db @
        [(Suc (review_seq sample_db), \<lparr>content = py_str ''nice'', score = 4, movie_id = 3\<rparr>)],
       review_seq := Suc (review_seq sample_db)\<rparr>,
     [Inr (message msg_created),
      Inr (JObj [(py_str ''content'', JStr (py_str ''nice'')), (py_str ''score'', JInt 4)])])"
proof -
  have mv: "3 \<in> keys (movie_tbl sample_db)" by (simp add: sample_db_def)
  show ?thesis
    using create_then_read_review [OF wf_sample_db mv clean_nice, of 4 JNull] wf_sample_db mv clean_nice
    by blast
qed

text \<open>C4: a \<^verbatim>\<open>PUT\<close> with clean content replaces both fields of an existing review
  and keeps its key and movie; a following \<^verbatim>\<open>GET\<close> shows the new values.\<close>

theorem update_then_read_review:
  assumes r: "map_of (review_tbl d) i = Some r" and c: "clean_text 100 c"
  shows "serve d
      [\<lparr>req_method = PUT, path = reverse (Review_detail i),
         body = JObj [(py_str ''content'', JStr c), (py_str ''score'', JInt s)]\<rparr>,
       \<lparr>req_method = GET, path = reverse (Review_detail i), body = b\<rparr>] =
    (d\<lparr>review_tbl := tbl_upd i (r\<lparr>content := c, score := s\<rparr>) (review_tbl d)\<rparr>,
     [Inr (message msg_updated),
      Inr (JObj [(py_str ''content'', JStr c), (py_str ''score'', JInt s)])])"
proof -
  let ?r = "r\<lparr>content := c, score := s\<rparr>"
  let ?d1 = "d\<lparr>review_tbl := tbl_upd i ?r (review_tbl d)\<rparr>"
  have step1: "handle d \<lparr>req_method = PUT, path = reverse (Review_detail i),
      body = JObj [(py_str ''content'', JStr c), (py_str ''score'', JInt s)]\<rparr> =
      (?d1, Inr (message msg_updated))"
    unfolding handle_reverse
    by (simp add: dispatch_allowed review_detail_PUT[OF r review_payload_validates[OF c]]
        review_update_validated_def)
  have "i \<in> keys (review_tbl d)" using r by (rule map_of_Some_keys)
  then have "map_of (review_tbl ?d1) i = Some ?r" by simp
  from handle_get_review[OF this, of b] have step2:
    "handle ?d1 \<lparr>req_method = GET, path = reverse (Review_detail i), body = b\<rparr> =
      (?d1, Inr (JObj [(py_str ''content'', JStr c), (py_str ''score'', JInt s)]))"
    by simp
  show ?thesis
    by (simp only: serve_two step1 step2 Let_def split_conv)
qed

theorem update_then_read_review_witness:
  "map_of (review_tbl sample_db) 1 = Some \<lparr>content = py_str ''ok'', score = 3, movie_id = 3\<rparr> \<and>
   clean_text 100 (py_str ''nice'') \<and>
   serve sample_db
      [\<lparr>req_method = PUT, path = reverse (Review_detail 1),
         body = JObj [(py_str ''content'', JStr (py_str ''nice'')), (py_str ''score'', JInt 5)]\<rparr>,
       \<lparr>req_method = GET, path = reverse (Review_detail 1), body = JNull\<rparr>] =
    (sample_db\<lparr>review_tbl := tbl_upd 1 (\<lparr>content = py_str ''ok'', score = 3, movie_id = 3\<rparr>\<lparr>content := py_str ''nice'', score := 5\<rparr>)
        (review_tbl sample_db)\<rparr>,
     [Inr (message msg_updated),
      Inr (JObj [(py_str ''content'', JStr (py_str ''nice'')), (py_str ''score'', JInt 5)])])"
proof -
  have r: "map_of (review_tbl sample_db) 1 = Some \<lparr>content = py_str ''ok'', score = 3, movie_id = 3\<rparr>"
    by (simp add: sample_db_def)
  show ?thesis
    using update_then_read_review [OF r clean_nice, of 5 JNull] r clean_nice by blast
qed

text \<open>C5: deleting an existing review answers the confirmation message; a following
  \<^verbatim>\<open>GET\<close> on the same key answers 404.\<close>

theorem delete_then_read_review:
  assumes i: "i \<in> keys (review_tbl d)"
  shows "serve d
      [\<lparr>req_method = DELETE, path = reverse (Review_detail i), body = b\<rparr>,
       \<lparr>req_method = GET, path = reverse (Review_detail i), body = b'\<rparr>] =
    (review_delete d i, [Inr (message msg_deleted), Inl Http404])"
proof -
  have step1: "handle d \<lparr>req_method = DELETE, path = reverse (Review_detail i), body = b\<rparr> =
      (review_delete d i, Inr (message msg_deleted))"
    unfolding handle_reverse using i by (simp add: dispatch_allowed db_simps)
  have "i \<notin> keys (review_tbl (review_delete d i))"
    by (auto simp: review_delete_def)
  then have step2: "handle (review_delete d i)
      \<lparr>req_method = GET, path = reverse (Review_detail i), body = b'\<rparr> =
      (review_delete d i, Inl Http404)"
    unfolding handle_reverse by (simp add: dispatch_allowed db_simps)
  show ?thesis
    by (simp only: serve_two step1 step2 Let_def split_conv)
qed

theorem delete_then_read_review_witness:
  "1 \<in> keys (review_tbl sample_db) \<and>
   serve sample_db
      [\<lparr>req_method = DELETE, path = reverse (Review_detail 1), body = JNull\<rparr>,
       \<lparr>req_method = GET, path = reverse (Review_detail 1), body = JNull\<rparr>] =
    (review_delete sample_db 1, [Inr (message msg_deleted), Inl Http404])"
proof -
  have i: "1 \<in> keys (review_tbl sample_db)" by (simp add: sample_db_def)
  show ?thesis using delete_then_read_review [OF i, of JNull JNull] i by blast
qed

text \<open>C6: a review whose content is longer than 100 code points after stripping is
  refused with a validation error on \<^verbatim>\<open>content\<close> (400), and nothing is stored.\<close>

theorem overlong_content_rejected:
  assumes long: "100 < length (py_strip c)"
  shows "handle d \<lparr>req_method = POST, path = reverse (Review_create mv),
            body = JObj [(py_str ''content'', JStr c), (py_str ''score'', JInt s)]\<rparr> =
    (d, Inl (ValidationError
          [(py_str ''content'', MaxLength 100 # (if 0 \<in> set (py_strip c) then [NullChar] else []))]))"
proof -
  have ne: "py_strip c \<noteq> []" using long by auto
  have "review_validate (JObj [(py_str ''content'', JStr c), (py_str ''score'', JInt s)]) =
      Inl [(py_str ''content'', MaxLength 100 # (if 0 \<in> set (py_strip c) then [NullChar] else []))]"
    using long ne
    by (simp add: review_validate_def Let_def char_checked_def char_validators_def integer_field_JInt
        del: integer_field.simps)
  then show ?thesis
    unfolding handle_reverse by (simp add: dispatch_allowed db_simps)
qed

theorem overlong_content_rejected_witness:
  "100 < length (py_strip (replicate 101 120)) \<and>
   handle sample_db \<lparr>req_method = POST, path = reverse (Review_create 3),
            body = JObj [(py_str ''content'', JStr (replicate 101 120)), (py_str ''score'', JInt 1)]\<rparr> =
    (sample_db, Inl (ValidationError
          [(py_str ''content'', MaxLength 100 # (if 0 \<in> set (py_strip (replicate 101 120)) then [NullChar] else []))]))"
proof -
  have long: "100 < length (py_strip (replicate 101 (120::nat)))"
    by (simp add: py_strip_def py_isspace_def)
  show ?thesis using overlong_content_rejected [OF long, of sample_db 3 1] long by blast
qed

text \<open>C7: every sequence of requests keeps the storage invariant: keys unique and
  below their counters, every movie's genre and every review's movie present.\<close>

theorem serve_preserves_wf:
  "wf_db d \<Longrightarrow> wf_db (fst (serve d rqs))"
proof (induction rqs arbitrary: d)
  case Nil
  then show ?case by simp
next
  case (Cons rq rqs)
  then show ?case by (simp only: serve_Cons_fst wf_handle)
qed

theorem serve_preserves_wf_witness:
  "wf_db sample_db \<and>
   wf_db (fst (serve sample_db [\<lparr>req_method = DELETE, path = reverse (Review_detail 1), body = JNull\<rparr>]))"
  using serve_preserves_wf [OF wf_sample_db] wf_sample_db by blast

text \<open>C8: in every reachable database the storage invariant holds and every stored
  review's content is non-blank, stripped, at most 100 code points long and free of
  NUL characters.\<close>

theorem reachable_invariant:
  "reachable d \<Longrightarrow> wf_db d \<and> reviews_clean d"
proof (induction rule: reachable.induct)
  case init
  show ?case using wf_empty_db by (simp add: reviews_clean_def empty_db_def)
next
  case (request d rq)
  then show ?case by (simp add: wf_handle reviews_clean_handle)
next
  case (add_genre d g)
  then show ?case using wf_genre_create reviews_clean_storage(1)
    by (metis prod.collapse)
next
  case (add_movie d m i d')
  then show ?case using wf_movie_create reviews_clean_storage(2) by blast
next
  case (drop_genre d gk)
  then show ?case by (simp add: wf_genre_delete reviews_clean_storage(3))
next
  case (drop_movie d mv)
  then show ?case by (simp add: wf_movie_delete reviews_clean_storage(4))
qed

theorem reachable_invariant_witness:
  "reachable (fst (handle empty_db \<lparr>req_method = GET, path = reverse Genre_list, body = JNull\<rparr>)) \<and>
   wf_db (fst (handle empty_db \<lparr>req_method = GET, path = reverse Genre_list, body = JNull\<rparr>)) \<and>
   reviews_clean (fst (handle empty_db \<lparr>req_method = GET, path = reverse Genre_list, body = JNull\<rparr>))"
proof -
  have r: "reachable (fst (handle empty_db \<lparr>req_method = GET, path = reverse Genre_list, body = JNull\<rparr>))"
    by (rule reachable.request [OF reachable.init])
  show ?thesis using reachable_invariant [OF r] r by blast
qed

text \<open>C9: a request answered with an error (404, 400, 405 or 500) has not changed
  the database.\<close>

theorem error_response_leaves_db:
  "handle d rq = (d', Inl e) \<Longrightarrow> d' = d"
  by (auto simp: handle_def dest: dispatch_Inl split: option.splits)

theorem error_response_leaves_db_witness:
  "handle sample_db \<lparr>req_method = POST, path = reverse (Review_create 3), body = JNull\<rparr> =
     (sample_db, Inl (ValidationError [(py_str ''non_field_errors'', [Null])])) \<and> sample_db = sample_db"
proof -
  have h: "handle sample_db \<lparr>req_method = POST, path = reverse (Review_create 3), body = JNull\<rparr> =
     (sample_db, Inl (ValidationError [(py_str ''non_field_errors'', [Null])]))"
    unfolding handle_reverse
    by (simp add: dispatch_allowed review_create_def review_validate_def)
  show ?thesis using error_response_leaves_db [OF h] h by blast
qed

text \<open>C10: \<^verbatim>\<open>GET\<close> requests never change the database, whatever the path.\<close>

theorem get_is_read_only:
  "req_method rq = GET \<Longrightarrow> fst (handle d rq) = d"
  by (simp add: handle_def dispatch_GET split: option.splits)

theorem get_is_read_only_witness:
  "req_method \<lparr>req_method = GET, path = reverse (Review_detail 1), body = JNull\<rparr> = GET \<and>
   fst (handle sample_db \<lparr>req_method = GET, path = reverse (Review_detail 1), body = JNull\<rparr>) = sample_db"
  using get_is_read_only [of "\<lparr>req_method = GET, path = reverse (Review_detail 1), body = JNull\<rparr>" sample_db]
  by simp

text \<open>No view answers 405 itself: the refusal comes only from the decorator.\<close>

lemma view_never_405: "view r m b d \<noteq> (d', Inl (MethodNotAllowed m'))"
  by (cases r) (auto simp: genre_detail_def movie_detail_def review_create_def review_detail_def
      split: option.splits sum.splits prod.splits)

text \<open>C11: the methods answered 405, with the database unchanged and no view run, are
  exactly those outside the \<^verbatim>\<open>@api_view\<close> lists of \<^verbatim>\<open>views.py\<close>: every method but
  \<^verbatim>\<open>GET\<close> on the genre and movie endpoints, every method but \<^verbatim>\<open>POST\<close> on
  \<^verbatim>\<open>movies/<id>/reviews/\<close>, and \<^verbatim>\<open>POST\<close> and \<^verbatim>\<open>PATCH\<close> on \<^verbatim>\<open>reviews/<id>/\<close>. The
  methods are those of \<open>http_method\<close>; \<^verbatim>\<open>HEAD\<close> and \<^verbatim>\<open>OPTIONS\<close>, which DRF answers
  itself, are not modelled.\<close>

theorem method_not_allowed_405:
  "handle d \<lparr>req_method = m, path = reverse r, body = b\<rparr> = (d, Inl (MethodNotAllowed m)) \<longleftrightarrow>
   (case r of
      Review_create mv \<Rightarrow> m \<noteq> POST
    | Review_detail i \<Rightarrow> m = POST \<or> m = PATCH
    | _ \<Rightarrow> m \<noteq> GET)"
  unfolding handle_reverse dispatch_def api_view_def
  using view_never_405[of r m b d d m]
  by (cases r; cases m) auto

theorem method_not_allowed_405_witness:
  "handle sample_db \<lparr>req_method = PATCH, path = reverse (Review_detail 1), body = JNull\<rparr> =
     (sample_db, Inl (MethodNotAllowed PATCH)) \<and>
   handle sample_db \<lparr>req_method = DELETE, path = reverse (Review_detail 1), body = JNull\<rparr> \<noteq>
     (sample_db, Inl (MethodNotAllowed DELETE))"
  using method_not_allowed_405[of sample_db PATCH "Review_detail 1" JNull]
    method_not_allowed_405[of sample_db DELETE "Review_detail 1" JNull]
  by simp

text \<open>C12: \<^verbatim>\<open>review_create\<close> does not look the movie up: a valid review posted
  under a movie key with no row is refused by the database's foreign key, answered
  500 (\<^verbatim>\<open>IntegrityError\<close>) rather than 404, and nothing is stored.\<close>

theorem review_for_missing_movie_is_500:
  assumes "mv \<notin> keys (movie_tbl d)" and "review_validate data = Inr v"
  shows "handle d \<lparr>req_method = POST, path = reverse (Review_create mv), body = data\<rparr> =
           (d, Inl DbIntegrityError) \<and>
         status (snd (handle d \<lparr>req_method = POST, path = reverse (Review_create mv), body = data\<rparr>)) = 500"
  unfolding handle_reverse using assms
  by (simp add: dispatch_allowed db_simps)

theorem review_for_missing_movie_is_500_witness:
  "9 \<notin> keys (movie_tbl sample_db) \<and>
   review_validate (JObj [(py_str ''content'', JStr (py_str ''nice'')), (py_str ''score'', JInt 4)]) =
     Inr (py_str ''nice'', 4) \<and>
   handle sample_db \<lparr>req_method = POST, path = reverse (Review_create 9),
       body = JObj [(py_str ''content'', JStr (py_str ''nice'')), (py_str ''score'', JInt 4)]\<rparr> =
     (sample_db, Inl DbIntegrityError) \<and>
   status (snd (handle sample_db \<lparr>req_method = POST, path = reverse (Review_create 9),
       body = JObj [(py_str ''content'', JStr (py_str ''nice'')), (py_str ''score'', JInt 4)]\<rparr>)) = 500"
proof -
  have mv: "9 \<notin> keys (movie_tbl sample_db)" by (simp add: sample_db_def)
  have v: "review_validate (JObj [(py_str ''content'', JStr (py_str ''nice'')), (py_str ''score'', JInt 4)]) =
     Inr (py_str ''nice'', 4)"
    by (rule review_payload_validates[OF clean_nice])
  show ?thesis using review_for_missing_movie_is_500 [OF mv v] mv v by blast
qed

text \<open>C13: review keys are never reused: a key at or below the counter that has no
  row (a deleted review) has no row after any further sequence of requests, so its
  detail endpoint answers 404 for ever.\<close>

theorem deleted_review_key_never_reused:
  assumes "i \<le> review_seq d" and "i \<notin> keys (review_tbl d)"
  shows "i \<notin> keys (review_tbl (fst (serve d rqs)))"
  using keys_grow_serve[of d rqs] assms by (auto simp: keys_grow_def)

theorem deleted_review_key_never_reused_witness:
  "1 \<le> review_seq (review_delete sample_db 1) \<and> 1 \<notin> keys (review_tbl (review_delete sample_db 1)) \<and>
   1 \<notin> keys (review_tbl (fst (serve (review_delete sample_db 1)
      [\<lparr>req_method = POST, path = reverse (Review_create 3),
         body = JObj [(py_str ''content'', JStr (py_str ''nice'')), (py_str ''score'', JInt 4)]\<rparr>])))"
proof -
  have h: "1 \<le> review_seq (review_delete sample_db 1)" "1 \<notin> keys (review_tbl (review_delete sample_db 1))"
    by (simp_all add: sample_db_def review_delete_def)
  show ?thesis using deleted_review_key_never_reused [OF h] h by blast
qed

section \<open>Witnesses of the storage properties\<close>

text \<open>The cascade and refinement properties of \<open>Models\<close> applied to the
  sample catalogue: deleting genre 1 takes movies 1 and 3 and the review of movie 3.\<close>

theorem genre_delete_cascade_witness:
  "wf_db sample_db \<and>
   keys (genre_tbl (genre_delete sample_db 1)) = keys (genre_tbl sample_db) - {1} \<and>
   set (movie_tbl (genre_delete sample_db 1)) = {x \<in> set (movie_tbl sample_db). genre_id (snd x) \<noteq> 1} \<and>
   set (review_tbl (genre_delete sample_db 1)) =
     {x \<in> set (review_tbl sample_db). movie_id (snd x) \<in> keys (movie_tbl (genre_delete sample_db 1))} \<and>
   wf_db (genre_delete sample_db 1)"
  using genre_delete_cascade [OF wf_sample_db, of 1] wf_sample_db by blast

theorem movie_delete_cascade_witness:
  "wf_db sample_db \<and>
   keys (movie_tbl (movie_delete sample_db 3)) = keys (movie_tbl sample_db) - {3} \<and>
   set (review_tbl (movie_delete sample_db 3)) = {x \<in> set (review_tbl sample_db). movie_id (snd x) \<noteq> 3} \<and>
   genre_tbl (movie_delete sample_db 3) = genre_tbl sample_db \<and>
   wf_db (movie_delete sample_db 3)"
  using movie_delete_cascade [OF wf_sample_db, of 3] wf_sample_db by blast

theorem review_table_refines_map_witness:
  "wf_db sample_db \<and>
   review_create_row sample_db \<lparr>content = py_str ''nice'', score = 4, movie_id = 3\<rparr> = Inr (2, sample_db\<lparr>review_tbl := review_tbl sample_db @ [(2, \<lparr>content = py_str ''nice'', score = 4, movie_id = 3\<rparr>)], review_seq := 2\<rparr>) \<and>
   2 \<notin> dom (review_map sample_db) \<and> review_map (sample_db\<lparr>review_tbl := review_tbl sample_db @ [(2, \<lparr>content = py_str ''nice'', score = 4, movie_id = 3\<rparr>)], review_seq := 2\<rparr>) = (review_map sample_db)(2 \<mapsto> \<lparr>content = py_str ''nice'', score = 4, movie_id = 3\<rparr>) \<and>
   1 \<in> dom (review_map sample_db) \<and> review_save sample_db 1 \<lparr>content = py_str ''fine'', score = 2, movie_id = 3\<rparr> = Inr (sample_db\<lparr>review_tbl := tbl_upd 1 \<lparr>content = py_str ''fine'', score = 2, movie_id = 3\<rparr> (review_tbl sample_db)\<rparr>) \<and>
   review_map (sample_db\<lparr>review_tbl := tbl_upd 1 \<lparr>content = py_str ''fine'', score = 2, movie_id = 3\<rparr> (review_tbl sample_db)\<rparr>) = (review_map sample_db)(1 \<mapsto> \<lparr>content = py_str ''fine'', score = 2, movie_id = 3\<rparr>) \<and>
   review_map (review_delete sample_db 1) = (review_map sample_db)(1 := None)"
proof -
  have c: "review_create_row sample_db \<lparr>content = py_str ''nice'', score = 4, movie_id = 3\<rparr> = Inr (2, sample_db\<lparr>review_tbl := review_tbl sample_db @ [(2, \<lparr>content = py_str ''nice'', score = 4, movie_id = 3\<rparr>)], review_seq := 2\<rparr>)"
    by (simp add: review_create_row_def sample_db_def)
  have i: "1 \<in> dom (review_map sample_db)"
    by (simp add: review_map_def sample_db_def)
  have s: "review_save sample_db 1 \<lparr>content = py_str ''fine'', score = 2, movie_id = 3\<rparr> = Inr (sample_db\<lparr>review_tbl := tbl_upd 1 \<lparr>content = py_str ''fine'', score = 2, movie_id = 3\<rparr> (review_tbl sample_db)\<rparr>)"
    by (rule review_save_tbl_upd) (simp add: sample_db_def)
  show ?thesis
    using review_table_refines_map [OF wf_sample_db,
        of "\<lparr>content = py_str ''nice'', score = 4, movie_id = 3\<rparr>" 2 "sample_db\<lparr>review_tbl := review_tbl sample_db @ [(2, \<lparr>content = py_str ''nice'', score = 4, movie_id = 3\<rparr>)], review_seq := 2\<rparr>" 1 "\<lparr>content = py_str ''fine'', score = 2, movie_id = 3\<rparr>" "sample_db\<lparr>review_tbl := tbl_upd 1 \<lparr>content = py_str ''fine'', score = 2, movie_id = 3\<rparr> (review_tbl sample_db)\<rparr>" 1] c i s wf_sample_db
    by blast
qed

section \<open>The API refines an abstract review store\<close>

text \<open>C25: on a well-formed database every request, whatever its method, path and
  body, leaves the genres and movies as they were and acts on the reviews, seen as a
  map from key to review, as one abstract store operation: nothing, an insertion
  under a free key, a replacement or a removal under an existing key.\<close>

theorem requests_refine_review_store:
  assumes "wf_db d"
  shows "genre_tbl (fst (handle d rq)) = genre_tbl d \<and> movie_tbl (fst (handle d rq)) = movie_tbl d \<and>
    store_op (review_map d) (review_map (fst (handle d rq)))"
  using assms
  by (simp add: handle_def store_op_dispatch dispatch_keeps_catalogue store_op.keep split: option.splits)

theorem requests_refine_review_store_witness:
  "wf_db sample_db \<and>
   genre_tbl (fst (handle sample_db \<lparr>req_method = DELETE, path = reverse (Review_detail 1), body = JNull\<rparr>)) =
     genre_tbl sample_db \<and>
   movie_tbl (fst (handle sample_db \<lparr>req_method = DELETE, path = reverse (Review_detail 1), body = JNull\<rparr>)) =
     movie_tbl sample_db \<and>
   store_op (review_map sample_db)
     (review_map (fst (handle sample_db \<lparr>req_method = DELETE, path = reverse (Review_detail 1), body = JNull\<rparr>)))"
  using requests_refine_review_store [OF wf_sample_db,
      of "\<lparr>req_method = DELETE, path = reverse (Review_detail 1), body = JNull\<rparr>"] wf_sample_db
  by blast

section \<open>The list endpoints and consecutive writes\<close>

text \<open>C26: \<^verbatim>\<open>GET /genres/\<close> and \<^verbatim>\<open>GET /movies/\<close> answer every row of their table,
  serialized, in storage order, and change nothing.\<close>

theorem list_endpoints_return_all:
  "handle d \<lparr>req_method = GET, path = reverse Genre_list, body = b\<rparr> =
     (d, Inr (JList (map genre_serializer (genre_tbl d)))) \<and>
   handle d \<lparr>req_method = GET, path = reverse Movie_list, body = b'\<rparr> =
     (d, Inr (JList (map movie_serializer (movie_tbl d))))"
  unfolding handle_reverse by (simp add: dispatch_allowed genre_list_def movie_list_def)

text \<open>A valid review posted under an existing movie, request by request.\<close>

lemma handle_post_review:
  assumes "mv \<in> keys (movie_tbl d)" and "clean_text 100 c"
  shows "handle d \<lparr>req_method = POST, path = reverse (Review_create mv),
      body = JObj [(py_str ''content'', JStr c), (py_str ''score'', JInt s)]\<rparr> =
    (d\<lparr>review_tbl := review_tbl d @ [(Suc (review_seq d), \<lparr>content = c, score = s, movie_id = mv\<rparr>)],
       review_seq := Suc (review_seq d)\<rparr>, Inr (message msg_created))"
  unfolding handle_reverse using assms
  by (simp add: dispatch_allowed review_create_def review_create_row_def review_from_validated_def
      review_payload_validates)

text \<open>C27: two valid reviews posted one after the other, under existing movies, are
  stored in that order under the next two keys, each answered with the creation
  message.\<close>

theorem consecutive_creates_get_consecutive_keys:
  assumes m1: "mv1 \<in> keys (movie_tbl d)" and m2: "mv2 \<in> keys (movie_tbl d)"
    and c1: "clean_text 100 c1" and c2: "clean_text 100 c2"
  shows "serve d
      [\<lparr>req_method = POST, path = reverse (Review_create mv1), body = JObj [(py_str ''content'', JStr c1), (py_str ''score'', JInt s1)]\<rparr>,
       \<lparr>req_method = POST, path = reverse (Review_create mv2), body = JObj [(py_str ''content'', JStr c2), (py_str ''score'', JInt s2)]\<rparr>] =
    (d\<lparr>review_tbl := review_tbl d @
         [(Suc (review_seq d), \<lparr>content = c1, score = s1, movie_id = mv1\<rparr>),
          (Suc (Suc (review_seq d)), \<lparr>content = c2, score = s2, movie_id = mv2\<rparr>)],
       review_seq := Suc (Suc (review_seq d))\<rparr>,
     [Inr (message msg_created), Inr (message msg_created)])"
proof -
  let ?d1 = "d\<lparr>review_tbl := review_tbl d @ [(Suc (review_seq d), \<lparr>content = c1, score = s1, movie_id = mv1\<rparr>)],
       review_seq := Suc (review_seq d)\<rparr>"
  note step1 = handle_post_review[OF m1 c1, of s1]
  have m2': "mv2 \<in> keys (movie_tbl ?d1)" using m2 by simp
  note step2 = handle_post_review[OF m2' c2, of s2]
  show ?thesis
    by (simp only: serve_two step1 step2 Let_def split_conv) simp
qed

theorem consecutive_creates_get_consecutive_keys_witness:
  "3 \<in> keys (movie_tbl sample_db) \<and> 1 \<in> keys (movie_tbl sample_db) \<and>
   clean_text 100 (py_str ''nice'') \<and> clean_text 100 (py_str ''great'') \<and>
   serve sample_db
      [\<lparr>req_method = POST, path = reverse (Review_create 3), body = JObj [(py_str ''content'', JStr (py_str ''nice'')), (py_str ''score'', JInt 4)]\<rparr>,
       \<lparr>req_method = POST, path = reverse (Review_create 1), body = JObj [(py_str ''content'', JStr (py_str ''great'')), (py_str ''score'', JInt 5)]\<rparr>] =
    (sample_db\<lparr>review_tbl := review_tbl sample_db @
         [(Suc (review_seq sample_db), \<lparr>content = py_str ''nice'', score = 4, movie_id = 3\<rparr>),
          (Suc (Suc (review_seq sample_db)), \<lparr>content = py_str ''great'', score = 5, movie_id = 1\<rparr>)],
       review_seq := Suc (Suc (review_seq sample_db))\<rparr>,
     [Inr (message msg_created), Inr (message msg_created)])"
proof -
  have m: "3 \<in> keys (movie_tbl sample_db)" "1 \<in> keys (movie_tbl sample_db)"
    by (simp_all add: sample_db_def)
  show ?thesis
    using consecutive_creates_get_consecutive_keys [OF m clean_nice clean_great, of 4 5] m clean_nice clean_great
    by blast
qed

section \<open>Every review can be removed\<close>

lemma serve_deletes:
  assumes "distinct ks" and "set ks \<subseteq> keys (review_tbl d)"
  shows "serve d (map (\<lambda>k. \<lparr>req_method = DELETE, path = reverse (Review_detail k), body = JNull\<rparr>) ks) =
    (d\<lparr>review_tbl := filter (\<lambda>(k, r). k \<notin> set ks) (review_tbl d)\<rparr>,
     replicate (length ks) (Inr (message msg_deleted)))"
  using assms
proof (induction ks arbitrary: d)
  case Nil
  then show ?case by simp
next
  case (Cons k ks)
  then have k: "k \<in> keys (review_tbl d)" by simp
  have step: "handle d \<lparr>req_method = DELETE, path = reverse (Review_detail k), body = JNull\<rparr> = (review_delete d k, Inr (message msg_deleted))"
  proof -
    obtain r where "map_of (review_tbl d) k = Some r" using keys_map_of_Some[OF k] by blast
    then show ?thesis unfolding handle_reverse by (simp add: dispatch_allowed review_detail_def)
  qed
  have "set ks \<subseteq> keys (review_tbl (review_delete d k))"
  proof
    fix x assume "x \<in> set ks"
    with Cons.prems have "x \<noteq> k" "x \<in> keys (review_tbl d)" by auto
    then show "x \<in> keys (review_tbl (review_delete d k))" by (force simp: review_delete_def)
  qed
  with Cons.prems have "serve (review_delete d k) (map (\<lambda>k. \<lparr>req_method = DELETE, path = reverse (Review_detail k), body = JNull\<rparr>) ks) =
      ((review_delete d k)\<lparr>review_tbl := filter (\<lambda>(k, r). k \<notin> set ks) (review_tbl (review_delete d k))\<rparr>,
       replicate (length ks) (Inr (message msg_deleted)))"
    using Cons.IH by simp
  with step show ?case
    by (simp add: review_delete_def filter_filter case_prod_beta conj_commute)
qed

text \<open>C29: from every well-formed database the API can always reach the state with
  no review: deleting each stored review in turn succeeds every time and leaves the
  review table empty, with genres, movies and counters as they were.\<close>

theorem all_reviews_can_be_deleted:
  assumes "wf_db d"
  shows "serve d (map (\<lambda>k. \<lparr>req_method = DELETE, path = reverse (Review_detail k), body = JNull\<rparr>) (map fst (review_tbl d))) =
    (d\<lparr>review_tbl := []\<rparr>, replicate (length (review_tbl d)) (Inr (message msg_deleted)))"
proof -
  have "filter (\<lambda>(k, r). k \<notin> set (map fst (review_tbl d))) (review_tbl d) = []"
    by (auto simp: filter_empty_conv)
  then show ?thesis
    using serve_deletes[of "map fst (review_tbl d)" d] wf_db_distinct(3)[OF assms] by simp
qed

theorem all_reviews_can_be_deleted_witness:
  "wf_db sample_db \<and>
   serve sample_db (map (\<lambda>k. \<lparr>req_method = DELETE, path = reverse (Review_detail k), body = JNull\<rparr>) (map fst (review_tbl sample_db))) =
    (sample_db\<lparr>review_tbl := []\<rparr>, replicate (length (review_tbl sample_db)) (Inr (message msg_deleted)))"
  using all_reviews_can_be_deleted [OF wf_sample_db] wf_sample_db by blast

section \<open>What the client controls\<close>

text \<open>C30: the client cannot choose a review's key or movie: two request bodies that
  agree on \<^verbatim>\<open>content\<close> and \<^verbatim>\<open>score\<close> get the same answer and the same database,
  whatever other keys (\<^verbatim>\<open>id\<close>, \<^verbatim>\<open>movie_id\<close>, \<dots>) they carry, on every path and
  method.\<close>

theorem extra_payload_keys_ignored:
  assumes "dict_get kvs (py_str ''content'') = dict_get kvs' (py_str ''content'')"
    and "dict_get kvs (py_str ''score'') = dict_get kvs' (py_str ''score'')"
  shows "handle d \<lparr>req_method = m, path = p, body = JObj kvs\<rparr> =
    handle d \<lparr>req_method = m, path = p, body = JObj kvs'\<rparr>"
proof (cases "resolve p")
  case None
  then show ?thesis by (simp add: handle_def)
next
  case (Some r)
  have v: "review_validate (JObj kvs) = review_validate (JObj kvs')"
    by (rule review_validate_keys[OF assms])
  have "review_create d (JObj kvs) i = review_create d (JObj kvs') i"
    and "review_detail d m (JObj kvs) i = review_detail d m (JObj kvs') i" for i
    unfolding review_create_def review_detail_def v by (rule refl)+
  then show ?thesis
    using Some by (cases r) (simp_all add: handle_def dispatch_def api_view_def)
qed

theorem extra_payload_keys_ignored_witness:
  "dict_get [(py_str ''content'', JStr (py_str ''nice'')), (py_str ''score'', JInt 4), (py_str ''id'', JInt 7), (py_str ''movie_id'', JInt 99)] (py_str ''content'') = dict_get [(py_str ''content'', JStr (py_str ''nice'')), (py_str ''score'', JInt 4)] (py_str ''content'') \<and>
   dict_get [(py_str ''content'', JStr (py_str ''nice'')), (py_str ''score'', JInt 4), (py_str ''id'', JInt 7), (py_str ''movie_id'', JInt 99)] (py_str ''score'') = dict_get [(py_str ''content'', JStr (py_str ''nice'')), (py_str ''score'', JInt 4)] (py_str ''score'') \<and>
   handle sample_db \<lparr>req_method = POST, path = reverse (Review_create 3), body = JObj [(py_str ''content'', JStr (py_str ''nice'')), (py_str ''score'', JInt 4), (py_str ''id'', JInt 7), (py_str ''movie_id'', JInt 99)]\<rparr> =
     handle sample_db \<lparr>req_method = POST, path = reverse (Review_create 3), body = JObj [(py_str ''content'', JStr (py_str ''nice'')), (py_str ''score'', JInt 4)]\<rparr>"
proof -
  have h: "dict_get [(py_str ''content'', JStr (py_str ''nice'')), (py_str ''score'', JInt 4), (py_str ''id'', JInt 7), (py_str ''movie_id'', JInt 99)] (py_str ''content'') = dict_get [(py_str ''content'', JStr (py_str ''nice'')), (py_str ''score'', JInt 4)] (py_str ''content'')"
    "dict_get [(py_str ''content'', JStr (py_str ''nice'')), (py_str ''score'', JInt 4), (py_str ''id'', JInt 7), (py_str ''movie_id'', JInt 99)] (py_str ''score'') = dict_get [(py_str ''content'', JStr (py_str ''nice'')), (py_str ''score'', JInt 4)] (py_str ''score'')"
    by simp_all
  show ?thesis using extra_payload_keys_ignored [OF h] h by blast
qed

section \<open>Requests on different reviews\<close>

text \<open>C32: two requests to different reviews, with any methods and bodies, commute:
  served in either order they leave the same database, and each request gets the
  same response in both orders. Each writes only its own row (\<open>review_detail_local\<close>)
  and writes to different rows commute (\<open>row_writes_commute\<close>).\<close>

theorem review_requests_commute:
  assumes "i \<noteq> j"
  shows "fst (serve d [\<lparr>req_method = m, path = reverse (Review_detail i), body = b\<rparr>,
                       \<lparr>req_method = m', path = reverse (Review_detail j), body = b'\<rparr>]) =
         fst (serve d [\<lparr>req_method = m', path = reverse (Review_detail j), body = b'\<rparr>,
                       \<lparr>req_method = m, path = reverse (Review_detail i), body = b\<rparr>]) \<and>
         snd (serve d [\<lparr>req_method = m, path = reverse (Review_detail i), body = b\<rparr>,
                       \<lparr>req_method = m', path = reverse (Review_detail j), body = b'\<rparr>]) =
         rev (snd (serve d [\<lparr>req_method = m', path = reverse (Review_detail j), body = b'\<rparr>,
                       \<lparr>req_method = m, path = reverse (Review_detail i), body = b\<rparr>]))"
    (is "fst (serve d [?A, ?B]) = fst (serve d [?B, ?A]) \<and> _")
proof -
  obtain E1 r1 where E1: "row_write i E1" and h1:
    "\<And>d'. map_of (review_tbl d') i = map_of (review_tbl d) i \<Longrightarrow>
        handle d' ?A = (d'\<lparr>review_tbl := E1 (review_tbl d')\<rparr>, r1)"
    using handle_review_detail_local[of i d m b] by blast
  obtain E2 r2 where E2: "row_write j E2" and h2:
    "\<And>d'. map_of (review_tbl d') j = map_of (review_tbl d) j \<Longrightarrow>
        handle d' ?B = (d'\<lparr>review_tbl := E2 (review_tbl d')\<rparr>, r2)"
    using handle_review_detail_local[of j d m' b'] by blast
  have AB: "serve d [?A, ?B] = (d\<lparr>review_tbl := E2 (E1 (review_tbl d))\<rparr>, [r1, r2])"
    using h1[of d] h2[of "d\<lparr>review_tbl := E1 (review_tbl d)\<rparr>"]
      row_write_other_key[OF assms(1)[symmetric] E1]
    by (simp add: serve_two)
  have BA: "serve d [?B, ?A] = (d\<lparr>review_tbl := E1 (E2 (review_tbl d))\<rparr>, [r2, r1])"
    using h2[of d] h1[of "d\<lparr>review_tbl := E2 (review_tbl d)\<rparr>"]
      row_write_other_key[OF assms(1) E2]
    by (simp add: serve_two)
  show ?thesis
    using AB BA row_writes_commute[OF assms(1) E1 E2] by simp
qed

theorem review_requests_commute_witness:
  "fst (serve sample_db [\<lparr>req_method = DELETE, path = reverse (Review_detail 1), body = JNull\<rparr>,
                         \<lparr>req_method = GET, path = reverse (Review_detail 2), body = JNull\<rparr>]) =
   fst (serve sample_db [\<lparr>req_method = GET, path = reverse (Review_detail 2), body = JNull\<rparr>,
                         \<lparr>req_method = DELETE, path = reverse (Review_detail 1), body = JNull\<rparr>])"
  using review_requests_commute[where i=1 and j=2 and m=DELETE and b=JNull and m'=GET and b'=JNull and d=sample_db] by simp

section \<open>Storage order is key order\<close>

text \<open>C33: in every reachable database the keys of each table are strictly increasing
  in storage order, so the list views, which serialise \<^verbatim>\<open>objects.all()\<close> in storage
  order, answer the rows in the order of their primary keys.\<close>

theorem reachable_tables_ascending: "reachable d \<Longrightarrow> db_ascending d"
proof (induction rule: reachable.induct)
  case init
  show ?case by (simp add: db_ascending_def ascending_def empty_db_def)
next
  case (request d rq)
  then show ?case using reachable_wf by (blast intro: asc_handle)
next
  case (add_genre d g)
  then show ?case using reachable_wf asc_genre_create by (metis prod.collapse)
next
  case (add_movie d m i d')
  then show ?case using reachable_wf by (blast intro: asc_movie_create)
qed (simp_all add: asc_genre_delete asc_movie_delete)

theorem reachable_tables_ascending_witness:
  "reachable (snd (genre_create empty_db \<lparr>name = py_str ''drama''\<rparr>)) \<and>
   db_ascending (snd (genre_create empty_db \<lparr>name = py_str ''drama''\<rparr>))"
proof -
  have r: "reachable (snd (genre_create empty_db \<lparr>name = py_str ''drama''\<rparr>))"
    by (rule reachable.add_genre [OF reachable.init])
  show ?thesis using reachable_tables_ascending [OF r] r by blast
qed


section \<open>Server errors\<close>

text \<open>The detail view never meets the database's \<^verbatim>\<open>IntegrityError\<close>: it saves a row it
  has just read.\<close>

lemma review_detail_never_integrity: "snd (review_detail d m data i) \<noteq> Inl DbIntegrityError"
  by (auto simp: review_detail_def review_save_def dest: map_of_Some_keys
      split: option.splits sum.splits if_splits)

text \<open>C34: the only request answered 500 is a \<^verbatim>\<open>POST\<close> to
  \<^verbatim>\<open>movies/<mv>/reviews/\<close> for a movie key \<open>mv\<close> with no row.\<close>

theorem integrity_error_only_for_missing_movie:
  assumes "snd (handle d rq) = Inl DbIntegrityError"
  shows "req_method rq = POST \<and>
         (\<exists>mv. resolve (path rq) = Some (Review_create mv) \<and> mv \<notin> keys (movie_tbl d))"
proof -
  obtain r where res: "resolve (path rq) = Some r"
    using assms by (auto simp: handle_def split: option.splits)
  with assms have disp: "snd (dispatch r (req_method rq) (body rq) d) = Inl DbIntegrityError"
    by (simp add: handle_def)
  then have allowed: "req_method rq \<in> set (allowed_methods r)"
    by (auto simp: dispatch_def api_view_def split: if_splits)
  with disp have "snd (view r (req_method rq) (body rq) d) = Inl DbIntegrityError"
    by (simp add: dispatch_allowed)
  moreover have "i \<notin> keys (movie_tbl d)"
    if "snd (review_create d (body rq) i) = Inl DbIntegrityError" for i
    using that by (auto simp: review_create_def review_create_row_def review_from_validated_def
        split: sum.splits if_splits)
  ultimately obtain mv where "r = Review_create mv" and "mv \<notin> keys (movie_tbl d)"
    using review_detail_never_integrity[of d "req_method rq" "body rq"]
    by (cases r) (auto simp: genre_detail_def movie_detail_def split: option.splits)
  with res allowed show ?thesis by auto
qed

theorem integrity_error_only_for_missing_movie_witness:
  "req_method \<lparr>req_method = POST, path = reverse (Review_create 9),
                body = JObj [(py_str ''content'', JStr (py_str ''nice'')), (py_str ''score'', JInt 5)]\<rparr> = POST \<and>
   (\<exists>mv. resolve (reverse (Review_create 9)) = Some (Review_create mv) \<and> mv \<notin> keys (movie_tbl sample_db))"
proof -
  let ?rq = "\<lparr>req_method = POST, path = reverse (Review_create 9),
              body = JObj [(py_str ''content'', JStr (py_str ''nice'')), (py_str ''score'', JInt 5)]\<rparr>"
  have "snd (handle sample_db ?rq) = Inl DbIntegrityError"
    unfolding handle_reverse using clean_nice
    by (simp add: dispatch_allowed review_payload_validates review_create_def
        review_create_row_def review_from_validated_def sample_db_def)
  from integrity_error_only_for_missing_movie[OF this] show ?thesis by simp
qed

end
